theory Spec2Isabelle
  imports Main "HOL-Library.AList"
begin

section \<open>Values that cross the wire and the event bus\<close>

text \<open>
  The payloads of Colyseus messages and the values of schema fields are untyped at run
  time, so they are modelled as JavaScript values. Numbers are integers here: no claim
  depends on fractions.
\<close>

datatype jsval =
    JUndefined
  | JNull
  | JBool bool
  | JNum int
  | JStr string
  | JObj "(string \<times> jsval) list"

datatype js_error = TypeError

text \<open>Destructuring \<open>const {a, b} = v\<close> raises a TypeError when \<open>v\<close> is
  \<open>null\<close> or \<open>undefined\<close>; on any other value a missing property reads as
  \<open>undefined\<close>.\<close>

fun nullish :: "jsval \<Rightarrow> bool" where
  "nullish JUndefined = True"
| "nullish JNull = True"
| "nullish _ = False"

fun get_field :: "jsval \<Rightarrow> string \<Rightarrow> jsval" where
  "get_field (JObj fs) f = (case map_of fs f of Some v \<Rightarrow> v | None \<Rightarrow> JUndefined)"
| "get_field _ f = JUndefined"

text \<open>The members of \<open>Message\<close> (types/Messages), \<open>ItemType\<close> and \<open>Event\<close> that
  Network.ts names.\<close>

datatype message =
    UPDATE_PLAYER
  | UPDATE_PLAYER_NAME
  | READY_TO_CONNECT
  | VIDEO_CONNECTED
  | DISCONNECT_STREAM
  | CONNECT_TO_TABLE
  | UPDATE_CHAIR_STATUS
  | DISCONNECT_FROM_TABLE
  | STOP_TABLE_TALK
  | ADD_CHAT_MESSAGE
  | SEND_DM
  | RECEIVE_DM
  | SEND_ROOM_DATA

datatype item_type = CHAIR

datatype room_type = LOBBY | PUBLIC | CUSTOM

text \<open>A player object of the \<open>players\<close> MapSchema: its synchronised fields, and the
  \<open>onChange\<close> listener when one is attached. The listener is the closure built in
  \<open>players.onAdd\<close>; it is stored as the \<open>key\<close> it captured.\<close>

record player =
  props :: "(string \<times> jsval) list"
  onChange :: "string option"

definition player_name :: "player \<Rightarrow> jsval" where
  "player_name p = (case map_of (props p) ''name'' of Some v \<Rightarrow> v | None \<Rightarrow> JUndefined)"

datatype event =
    PLAYER_UPDATED string jsval string
  | PLAYER_JOINED player string
  | PLAYER_LEFT string
  | ITEM_USER_ADDED jsval string item_type
  | ITEM_USER_REMOVED jsval string item_type
  | UPDATE_DIALOG_BUBBLE jsval jsval
  | MY_PLAYER_READY
  | MY_PLAYER_VIDEO_CONNECTED

text \<open>The store actions Network.ts dispatches (stores/UserStore, RoomStore, ChatStore).\<close>

datatype action =
    SetSessionId string
  | SetPlayerNameMap string jsval "string option"
  | RemovePlayerNameMap string
  | SetLobbyJoined bool
  | SetJoinedRoomData jsval
  | SetNumPlayer nat
  | PushChatMessage jsval
  | PushPlayerJoinedMessage jsval
  | PushPlayerLeftMessage jsval

text \<open>What the class does to its collaborators, in the order it does it: events on
  \<open>phaserEvents\<close>, store dispatches, messages sent on a room (named by its address),
  the lobby's \<open>leave()\<close>, console output, the calls on the WebRTC object and on the
  table-talk manager, and the join requests made on the Colyseus client.\<close>

datatype effect =
    Emit event
  | Dispatch action
  | Send nat message jsval
  | LobbyLeave
  | ConsoleLog "jsval list"
  | WebRTC_new jsval
  | DeleteVideoStream jsval
  | DeleteOnCalledVideoStream jsval
  | TableTalk_onUserLeft jsval
  | Client_joinOrCreate room_type
  | Client_joinById string jsval
  | Client_create room_type jsval

section \<open>The Network object and the rooms it has joined\<close>

record table =
  connectedUser :: "jsval list"
  connectedUser_onAdd :: "string option"
  connectedUser_onRemove :: "string option"

text \<open>A Colyseus \<open>Room\<close>: the session id the server assigned, the three collections of
  its state, and the handlers \<open>initialize\<close> has installed on it. A callback property
  (\<open>onAdd = ...\<close>) is a flag; \<open>onMessage\<close> and \<open>onStateChange\<close> add a listener at
  every call, so they are a list and a count.\<close>

record room_obj =
  sessionId :: string
  players :: "(string \<times> player) list"
  tables :: "(string \<times> table) list"
  chatMessages :: "jsval list"
  players_onAdd :: bool
  players_onRemove :: bool
  tables_onAdd :: bool
  chatMessages_onAdd :: bool
  onMessage :: "message list"
  onStateChange :: nat

datatype lobby_room = LobbyOpen | LobbyLeft

text \<open>The fields of \<open>Network\<close>. \<open>room\<close> is a reference: the address of a room in
  \<open>rooms\<close>, the store of the Room objects the client library has handed out. A field
  the constructor leaves unset (\<open>lobby\<close>, \<open>mySessionId\<close>, \<open>myUserId\<close>, \<open>webRTC\<close>,
  \<open>room\<close>) is \<open>None\<close> until it is assigned. \<open>tableTalkManager\<close> is not a field of
  the object: it is the one part of the store's state that a listener reads
  (\<open>store.getState().table.tableTalkManager\<close>, line 198), here whether the store holds a
  manager.\<close>

record state =
  room :: "nat option"
  lobby :: "lobby_room option"
  webRTC :: "jsval option"
  mySessionId :: "string option"
  myUserId :: "string option"
  rooms :: "nat \<Rightarrow> room_obj"
  next_room :: nat
  tableTalkManager :: bool

definition fresh_room :: "string \<Rightarrow> room_obj" where
  "fresh_room sid =
     \<lparr>sessionId = sid, players = [], tables = [], chatMessages = [],
      players_onAdd = False, players_onRemove = False, tables_onAdd = False,
      chatMessages_onAdd = False, onMessage = [], onStateChange = 0\<rparr>"

text \<open>The object as the constructor leaves it: the lobby join is pending, no field
  is assigned and the store holds no table-talk manager. The constructor also subscribes \<open>updatePlayerName\<close>, \<open>updatePlayer\<close>
  and \<open>playerStreamDisconnect\<close> to events of the bus; the delivery of such an event
  is a call of the operation.\<close>

definition initial :: state where
  "initial =
     \<lparr>room = None, lobby = None, webRTC = None, mySessionId = None, myUserId = None,
      rooms = (\<lambda>_. fresh_room []), next_room = 0, tableTalkManager = False\<rparr>"

text \<open>A string or boolean that may still be \<open>undefined\<close> (an unset field, an
  optional parameter), as the value JavaScript passes on.\<close>

fun opt_str :: "string option \<Rightarrow> jsval" where
  "opt_str None = JUndefined"
| "opt_str (Some s) = JStr s"

fun opt_bool :: "bool option \<Rightarrow> jsval" where
  "opt_bool None = JUndefined"
| "opt_bool (Some b) = JBool b"

section \<open>Outbound operations (Network.ts, lines 273 to 338)\<close>

text \<open>\<open>this.room?.send(type, payload)\<close>: nothing when no room is set.\<close>

definition room_send :: "state \<Rightarrow> message \<Rightarrow> jsval \<Rightarrow> effect list" where
  "room_send st m payload = (case room st of None \<Rightarrow> [] | Some r \<Rightarrow> [Send r m payload])"

definition updatePlayer :: "int \<Rightarrow> int \<Rightarrow> string \<Rightarrow> state \<Rightarrow> effect list" where
  "updatePlayer currentX currentY currentAnim st =
     room_send st UPDATE_PLAYER
       (JObj [(''x'', JNum currentX), (''y'', JNum currentY), (''anim'', JStr currentAnim)])"

definition updatePlayerName :: "jsval \<Rightarrow> state \<Rightarrow> js_error + effect list" where
  "updatePlayerName msg st =
     (if nullish msg then Inl TypeError
      else
        let currentName = get_field msg ''currentName'';
            userId = get_field msg ''userId''
        in Inr ([ConsoleLog [JStr ''updatePlayerName'', msg], ConsoleLog [userId]] @
                room_send st UPDATE_PLAYER_NAME
                  (JObj [(''name'', currentName), (''userId'', userId)])))"

definition readyToConnect :: "state \<Rightarrow> effect list" where
  "readyToConnect st = room_send st READY_TO_CONNECT JUndefined @ [Emit MY_PLAYER_READY]"

definition videoConnected :: "state \<Rightarrow> effect list" where
  "videoConnected st =
     room_send st VIDEO_CONNECTED JUndefined @ [Emit MY_PLAYER_VIDEO_CONNECTED]"

text \<open>\<open>this.webRTC?.deleteVideoStream(id)\<close> and its sibling: nothing when no WebRTC
  object has been built.\<close>

definition webRTC_deleteVideoStream :: "state \<Rightarrow> jsval \<Rightarrow> effect list" where
  "webRTC_deleteVideoStream st k =
     (case webRTC st of None \<Rightarrow> [] | Some _ \<Rightarrow> [DeleteVideoStream k])"

definition webRTC_deleteOnCalledVideoStream :: "state \<Rightarrow> jsval \<Rightarrow> effect list" where
  "webRTC_deleteOnCalledVideoStream st k =
     (case webRTC st of None \<Rightarrow> [] | Some _ \<Rightarrow> [DeleteOnCalledVideoStream k])"

definition playerStreamDisconnect :: "string \<Rightarrow> state \<Rightarrow> effect list" where
  "playerStreamDisconnect i st =
     room_send st DISCONNECT_STREAM (JObj [(''clientId'', JStr i)]) @
     webRTC_deleteVideoStream st (JStr i)"

definition connectToTable :: "string \<Rightarrow> state \<Rightarrow> effect list" where
  "connectToTable i st = room_send st CONNECT_TO_TABLE (JObj [(''tableId'', JStr i)])"

definition updateChairStatus ::
  "string option \<Rightarrow> string option \<Rightarrow> bool option \<Rightarrow> state \<Rightarrow> effect list" where
  "updateChairStatus tableId chairId status st =
     room_send st UPDATE_CHAIR_STATUS
       (JObj [(''tableId'', opt_str tableId), (''chairId'', opt_str chairId),
              (''status'', opt_bool status)])"

definition disconnectFromTable :: "string \<Rightarrow> state \<Rightarrow> effect list" where
  "disconnectFromTable i st =
     room_send st DISCONNECT_FROM_TABLE (JObj [(''tableId'', JStr i)])"

definition onStopTableTalk :: "string \<Rightarrow> state \<Rightarrow> effect list" where
  "onStopTableTalk i st = room_send st STOP_TABLE_TALK (JObj [(''tableId'', JStr i)])"

definition addChatMessage :: "string \<Rightarrow> state \<Rightarrow> effect list" where
  "addChatMessage content st =
     room_send st ADD_CHAT_MESSAGE (JObj [(''content'', JStr content)])"

definition checkPrivateMessage :: "string \<Rightarrow> state \<Rightarrow> effect list" where
  "checkPrivateMessage sender st =
     room_send st RECEIVE_DM (JObj [(''sender'', JStr sender)])"

definition sendPrivateMessage :: "string \<Rightarrow> string \<Rightarrow> string \<Rightarrow> state \<Rightarrow> effect list" where
  "sendPrivateMessage sender receiver content st =
     room_send st SEND_DM
       (JObj [(''sender'', JStr sender), (''receiver'', JStr receiver),
              (''content'', JStr content)]) @
     checkPrivateMessage receiver st"

text \<open>The outbound operations as one type, so that a statement can range over all of
  them; \<open>call\<close> runs one. None of them assigns a field of the object.\<close>

datatype outbound =
    UpdatePlayer int int string
  | UpdatePlayerName jsval
  | ReadyToConnect
  | VideoConnected
  | PlayerStreamDisconnect string
  | ConnectToTable string
  | UpdateChairStatus "string option" "string option" "bool option"
  | DisconnectFromTable string
  | OnStopTableTalk string
  | AddChatMessage string
  | SendPrivateMessage string string string
  | CheckPrivateMessage string

fun call :: "outbound \<Rightarrow> state \<Rightarrow> js_error + effect list" where
  "call (UpdatePlayer x y a) st = Inr (updatePlayer x y a st)"
| "call (UpdatePlayerName m) st = updatePlayerName m st"
| "call ReadyToConnect st = Inr (readyToConnect st)"
| "call VideoConnected st = Inr (videoConnected st)"
| "call (PlayerStreamDisconnect i) st = Inr (playerStreamDisconnect i st)"
| "call (ConnectToTable i) st = Inr (connectToTable i st)"
| "call (UpdateChairStatus t c s) st = Inr (updateChairStatus t c s st)"
| "call (DisconnectFromTable i) st = Inr (disconnectFromTable i st)"
| "call (OnStopTableTalk i) st = Inr (onStopTableTalk i st)"
| "call (AddChatMessage c) st = Inr (addChatMessage c st)"
| "call (SendPrivateMessage s r c) st = Inr (sendPrivateMessage s r c st)"
| "call (CheckPrivateMessage s) st = Inr (checkPrivateMessage s st)"

section \<open>The listeners (Network.ts, lines 120 to 209)\<close>

text \<open>Each listener is a closure over \<open>this\<close>: it reads the fields of the Network
  object when it runs, not when it was installed. None of them assigns a field, so a
  listener returns the effects it causes (and, for the two \<open>onAdd\<close> listeners that
  attach a listener to their argument, the argument as they leave it).\<close>

type_synonym change = "string \<times> jsval"

text \<open>\<open>players.onAdd\<close> (lines 120 to 140): nothing for the local key, otherwise the
  player gets the change listener.\<close>

definition players_onAdd_cb :: "state \<Rightarrow> player \<Rightarrow> string \<Rightarrow> player" where
  "players_onAdd_cb st p key =
     (if mySessionId st = Some key then p else p\<lparr>onChange := Some key\<rparr>)"

text \<open>The body of \<open>changes.forEach\<close> (lines 126 to 137) for one change, and the
  listener \<open>player.onChange\<close> itself. \<open>value !== ""\<close> is strict: it holds of every
  value but the empty string.\<close>

definition on_change :: "state \<Rightarrow> player \<Rightarrow> string \<Rightarrow> change \<Rightarrow> effect list" where
  "on_change st p key c =
     (case c of (field, val) \<Rightarrow>
        Emit (PLAYER_UPDATED field val key) #
        (if field = ''name'' \<and> val \<noteq> JStr []
         then [Emit (PLAYER_JOINED p key),
               Dispatch (SetPlayerNameMap key val (myUserId st)),
               Dispatch (PushPlayerJoinedMessage val)]
         else []))"

definition player_onChange_cb ::
  "state \<Rightarrow> player \<Rightarrow> string \<Rightarrow> change list \<Rightarrow> effect list" where
  "player_onChange_cb st p key changes = concat (map (on_change st p key) changes)"

text \<open>\<open>players.onRemove\<close> (lines 143 to 149).\<close>

definition players_onRemove_cb :: "state \<Rightarrow> player \<Rightarrow> string \<Rightarrow> effect list" where
  "players_onRemove_cb st p key =
     Emit (PLAYER_LEFT key) #
     webRTC_deleteVideoStream st (JStr key) @
     webRTC_deleteOnCalledVideoStream st (JStr key) @
     [Dispatch (PushPlayerLeftMessage (player_name p)),
      Dispatch (RemovePlayerNameMap key)]"

text \<open>\<open>tables.onAdd\<close> (lines 151 to 169) and the two listeners it attaches to the
  table's \<open>connectedUser\<close>.\<close>

definition tables_onAdd_cb :: "table \<Rightarrow> string \<Rightarrow> table" where
  "tables_onAdd_cb t key =
     t\<lparr>connectedUser_onAdd := Some key, connectedUser_onRemove := Some key\<rparr>"

definition connectedUser_onAdd_cb :: "string \<Rightarrow> jsval \<Rightarrow> effect list" where
  "connectedUser_onAdd_cb key item = [Emit (ITEM_USER_ADDED item key CHAIR)]"

definition connectedUser_onRemove_cb :: "string \<Rightarrow> jsval \<Rightarrow> effect list" where
  "connectedUser_onRemove_cb key item = [Emit (ITEM_USER_REMOVED item key CHAIR)]"

text \<open>\<open>chatMessages.onAdd\<close> (lines 172 to 174).\<close>

definition chatMessages_onAdd_cb :: "jsval \<Rightarrow> effect list" where
  "chatMessages_onAdd_cb item = [Dispatch (PushChatMessage item)]"

text \<open>The five \<open>onMessage\<close> handlers (lines 177 to 203). The chat handler
  destructures its payload in the parameter list, which raises on \<open>null\<close> and
  \<open>undefined\<close>. \<open>tableTalkManager?.onUserLeft(clientId)\<close> is a call only when the
  store holds a manager. No handler is installed for the other message types.\<close>

fun onMessage_cb :: "message \<Rightarrow> state \<Rightarrow> jsval \<Rightarrow> js_error + effect list" where
  "onMessage_cb SEND_ROOM_DATA st content = Inr [Dispatch (SetJoinedRoomData content)]"
| "onMessage_cb ADD_CHAT_MESSAGE st payload =
     (if nullish payload then Inl TypeError
      else Inr [Emit (UPDATE_DIALOG_BUBBLE (get_field payload ''clientId'')
                        (get_field payload ''content''))])"
| "onMessage_cb DISCONNECT_STREAM st clientId =
     Inr (webRTC_deleteOnCalledVideoStream st clientId)"
| "onMessage_cb STOP_TABLE_TALK st clientId =
     Inr (if tableTalkManager st then [TableTalk_onUserLeft clientId] else [])"
| "onMessage_cb RECEIVE_DM st content = Inr [ConsoleLog [content]]"
| "onMessage_cb _ st content = Inr []"

text \<open>The \<open>onStateChange\<close> handler (lines 204 to 209): it reads the players of
  \<open>this.room\<close>, whichever room the notification came from.\<close>

definition onStateChange_cb :: "state \<Rightarrow> effect list" where
  "onStateChange_cb st =
     (case room st of
        None \<Rightarrow> []
      | Some r \<Rightarrow> [Dispatch (SetNumPlayer (length (players (rooms st r))))])"

section \<open>initialize and the join operations (Network.ts, lines 78 to 210)\<close>

text \<open>A statement either returns or raises; both leave the effects it caused and the
  state it reached.\<close>

datatype outcome =
    Returned "effect list" state
  | Raised js_error "effect list" state

type_synonym stmt = "state \<Rightarrow> outcome"

fun effects_of :: "outcome \<Rightarrow> effect list" where
  "effects_of (Returned es st) = es"
| "effects_of (Raised e es st) = es"

fun state_of :: "outcome \<Rightarrow> state" where
  "state_of (Returned es st) = st"
| "state_of (Raised e es st) = st"

fun raised :: "outcome \<Rightarrow> bool" where
  "raised (Returned es st) = False"
| "raised (Raised e es st) = True"

fun after :: "effect list \<Rightarrow> outcome \<Rightarrow> outcome" where
  "after es (Returned es' st) = Returned (es @ es') st"
| "after es (Raised e es' st) = Raised e (es @ es') st"

text \<open>Statements in sequence: the first one that raises ends the run.\<close>

fun exec :: "stmt list \<Rightarrow> stmt" where
  "exec [] st = Returned [] st"
| "exec (s # ss) st =
     (case s st of
        Raised e es st' \<Rightarrow> Raised e es st'
      | Returned es st' \<Rightarrow> after es (exec ss st'))"

definition set_room :: "nat \<Rightarrow> (room_obj \<Rightarrow> room_obj) \<Rightarrow> state \<Rightarrow> state" where
  "set_room r f st = st\<lparr>rooms := (rooms st)(r := f (rooms st r))\<rparr>"

text \<open>The statements of \<open>initialize\<close>, one definition per statement, for the room at
  address \<open>r\<close>. \<open>this.lobby.leave()\<close> raises when the lobby join has not resolved yet
  (\<open>this.lobby\<close> is then undefined).\<close>

definition lobby_leave :: stmt where
  "lobby_leave st =
     (case lobby st of
        None \<Rightarrow> Raised TypeError [] st
      | Some l \<Rightarrow> Returned [LobbyLeave] (st\<lparr>lobby := Some LobbyLeft\<rparr>))"

definition record_sessionId :: "nat \<Rightarrow> stmt" where
  "record_sessionId r st = Returned [] (st\<lparr>mySessionId := Some (sessionId (rooms st r))\<rparr>)"

definition log_mySessionId :: stmt where
  "log_mySessionId st =
     Returned [ConsoleLog [JStr ''mySessionId'', opt_str (mySessionId st)]] st"

definition log_myUserId :: stmt where
  "log_myUserId st = Returned [ConsoleLog [JStr ''myUserId'', opt_str (myUserId st)]] st"

definition dispatch_setSessionId :: "nat \<Rightarrow> stmt" where
  "dispatch_setSessionId r st =
     Returned [Dispatch (SetSessionId (sessionId (rooms st r)))] st"

definition new_WebRTC :: stmt where
  "new_WebRTC st =
     Returned [WebRTC_new (opt_str (mySessionId st))]
       (st\<lparr>webRTC := Some (opt_str (mySessionId st))\<rparr>)"

definition install_players_onAdd :: "nat \<Rightarrow> stmt" where
  "install_players_onAdd r st = Returned [] (set_room r (\<lambda>ro. ro\<lparr>players_onAdd := True\<rparr>) st)"

definition install_players_onRemove :: "nat \<Rightarrow> stmt" where
  "install_players_onRemove r st =
     Returned [] (set_room r (\<lambda>ro. ro\<lparr>players_onRemove := True\<rparr>) st)"

definition install_tables_onAdd :: "nat \<Rightarrow> stmt" where
  "install_tables_onAdd r st = Returned [] (set_room r (\<lambda>ro. ro\<lparr>tables_onAdd := True\<rparr>) st)"

definition install_chatMessages_onAdd :: "nat \<Rightarrow> stmt" where
  "install_chatMessages_onAdd r st =
     Returned [] (set_room r (\<lambda>ro. ro\<lparr>chatMessages_onAdd := True\<rparr>) st)"

definition register_onMessage :: "nat \<Rightarrow> message \<Rightarrow> stmt" where
  "register_onMessage r m st =
     Returned [] (set_room r (\<lambda>ro. ro\<lparr>onMessage := onMessage ro @ [m]\<rparr>) st)"

definition register_onStateChange :: "nat \<Rightarrow> stmt" where
  "register_onStateChange r st =
     Returned [] (set_room r (\<lambda>ro. ro\<lparr>onStateChange := Suc (onStateChange ro)\<rparr>) st)"

definition initialize_stmts :: "nat \<Rightarrow> stmt list" where
  "initialize_stmts r =
     [lobby_leave,
      record_sessionId r,
      log_mySessionId,
      log_myUserId,
      dispatch_setSessionId r,
      new_WebRTC,
      install_players_onAdd r,
      install_players_onRemove r,
      install_tables_onAdd r,
      install_chatMessages_onAdd r,
      register_onMessage r SEND_ROOM_DATA,
      register_onMessage r ADD_CHAT_MESSAGE,
      register_onMessage r DISCONNECT_STREAM,
      register_onMessage r STOP_TABLE_TALK,
      register_onMessage r RECEIVE_DM,
      register_onStateChange r]"

definition initialize :: stmt where
  "initialize st =
     (case room st of
        None \<Rightarrow> Returned [] st
      | Some r \<Rightarrow> exec (initialize_stmts r) st)"

text \<open>The join operations are asynchronous. A call runs the method up to its
  \<open>await\<close>: the request on the client, and no assignment. What runs when the awaited
  promise resolves with the room at address \<open>r\<close> is the rest of the method: the
  assignment to \<open>this.room\<close> and the call of \<open>initialize\<close>. A rejected promise
  runs nothing. \<open>joinLobbyRoom_resolved\<close> includes the constructor's \<open>then\<close>
  callback.\<close>

record room_data =
  rd_name :: string
  rd_description :: string
  rd_password :: "string option"
  rd_autoDispose :: bool

fun str_or_null :: "string option \<Rightarrow> jsval" where
  "str_or_null None = JNull"
| "str_or_null (Some s) = JStr s"

definition joinLobbyRoom_called :: stmt where
  "joinLobbyRoom_called st = Returned [Client_joinOrCreate LOBBY] st"

definition joinOrCreatePublic_called :: "string \<Rightarrow> stmt" where
  "joinOrCreatePublic_called userId st = Returned [Client_joinOrCreate PUBLIC] st"

definition joinCustomById_called :: "string \<Rightarrow> string option \<Rightarrow> stmt" where
  "joinCustomById_called roomId password st =
     Returned [Client_joinById roomId (JObj [(''password'', str_or_null password)])] st"

definition createCustom_called :: "room_data \<Rightarrow> stmt" where
  "createCustom_called roomData st =
     Returned
       [Client_create CUSTOM
          (JObj [(''name'', JStr (rd_name roomData)),
                 (''description'', JStr (rd_description roomData)),
                 (''password'', str_or_null (rd_password roomData)),
                 (''autoDispose'', JBool (rd_autoDispose roomData))])] st"

definition joinLobbyRoom_resolved :: stmt where
  "joinLobbyRoom_resolved st =
     Returned [Dispatch (SetLobbyJoined True)] (st\<lparr>lobby := Some LobbyOpen\<rparr>)"

definition joinOrCreatePublic_resolved :: "string \<Rightarrow> nat \<Rightarrow> stmt" where
  "joinOrCreatePublic_resolved userId r st =
     initialize (st\<lparr>room := Some r, myUserId := Some userId\<rparr>)"

definition joinCustomById_resolved :: "nat \<Rightarrow> stmt" where
  "joinCustomById_resolved r st = initialize (st\<lparr>room := Some r\<rparr>)"

definition createCustom_resolved :: "nat \<Rightarrow> stmt" where
  "createCustom_resolved r st = initialize (st\<lparr>room := Some r\<rparr>)"

section \<open>The transport: what the Colyseus client does with a room\<close>

text \<open>
  The client library is not part of the repository. This section models the little of
  it that the listeners depend on: a schema callback runs when it is set, after the
  library has applied the change to the collection; \<open>onAdd\<close> receives the new
  instance, \<open>onRemove\<close> the instance that has left, \<open>onChange\<close> the list of changed
  fields; a message runs every handler registered for its type, a state change every
  state-change listener. A change for a key the collection does not hold is ignored.
  A new player arrives with its initial fields in the same patch: after \<open>onAdd\<close> the
  library runs the \<open>onChange\<close> listener of the new instance, when \<open>onAdd\<close> has
  attached one, on those fields.
\<close>

datatype notification =
    PlayersAdd string "(string \<times> jsval) list"
  | PlayersRemove string player
  | PlayerChange string "change list"
  | TablesAdd string
  | ConnectedUserAdd string jsval
  | ConnectedUserRemove string jsval
  | ChatAdd jsval
  | Inbound message jsval
  | StateChange

definition lift_cb :: "js_error + effect list \<Rightarrow> stmt" where
  "lift_cb res st = (case res of Inl e \<Rightarrow> Raised e [] st | Inr es \<Rightarrow> Returned es st)"

definition apply_changes :: "change list \<Rightarrow> player \<Rightarrow> player" where
  "apply_changes changes p =
     p\<lparr>props := fold (\<lambda>c. AList.update (fst c) (snd c)) changes (props p)\<rparr>"

fun deliver :: "nat \<Rightarrow> notification \<Rightarrow> stmt" where
  "deliver r (PlayersAdd key fs) st =
     (let p0 = \<lparr>props = fs, onChange = None\<rparr>;
          p = (if players_onAdd (rooms st r) then players_onAdd_cb st p0 key else p0)
      in Returned
           (case onChange p of
              None \<Rightarrow> []
            | Some k \<Rightarrow> player_onChange_cb st p k fs)
           (set_room r (\<lambda>ro. ro\<lparr>players := AList.update key p (players ro)\<rparr>) st))"
| "deliver r (PlayersRemove key p) st =
     Returned (if players_onRemove (rooms st r) then players_onRemove_cb st p key else [])
       (set_room r (\<lambda>ro. ro\<lparr>players := AList.delete key (players ro)\<rparr>) st)"
| "deliver r (PlayerChange key changes) st =
     (case map_of (players (rooms st r)) key of
        None \<Rightarrow> Returned [] st
      | Some p \<Rightarrow>
          (let p' = apply_changes changes p
           in Returned
                (case onChange p' of
                   None \<Rightarrow> []
                 | Some k \<Rightarrow> player_onChange_cb st p' k changes)
                (set_room r (\<lambda>ro. ro\<lparr>players := AList.update key p' (players ro)\<rparr>) st)))"
| "deliver r (TablesAdd key) st =
     (let t0 = \<lparr>connectedUser = [], connectedUser_onAdd = None,
                connectedUser_onRemove = None\<rparr>;
          t = (if tables_onAdd (rooms st r) then tables_onAdd_cb t0 key else t0)
      in Returned [] (set_room r (\<lambda>ro. ro\<lparr>tables := AList.update key t (tables ro)\<rparr>) st))"
| "deliver r (ConnectedUserAdd key item) st =
     (case map_of (tables (rooms st r)) key of
        None \<Rightarrow> Returned [] st
      | Some t \<Rightarrow>
          Returned
            (case connectedUser_onAdd t of
               None \<Rightarrow> []
             | Some k \<Rightarrow> connectedUser_onAdd_cb k item)
            (set_room r
               (\<lambda>ro. ro\<lparr>tables :=
                  AList.update key (t\<lparr>connectedUser := connectedUser t @ [item]\<rparr>)
                    (tables ro)\<rparr>) st))"
| "deliver r (ConnectedUserRemove key item) st =
     (case map_of (tables (rooms st r)) key of
        None \<Rightarrow> Returned [] st
      | Some t \<Rightarrow>
          Returned
            (case connectedUser_onRemove t of
               None \<Rightarrow> []
             | Some k \<Rightarrow> connectedUser_onRemove_cb k item)
            (set_room r
               (\<lambda>ro. ro\<lparr>tables :=
                  AList.update key (t\<lparr>connectedUser := remove1 item (connectedUser t)\<rparr>)
                    (tables ro)\<rparr>) st))"
| "deliver r (ChatAdd item) st =
     Returned (if chatMessages_onAdd (rooms st r) then chatMessages_onAdd_cb item else [])
       (set_room r (\<lambda>ro. ro\<lparr>chatMessages := chatMessages ro @ [item]\<rparr>) st)"
| "deliver r (Inbound m payload) st =
     exec (map (\<lambda>h. lift_cb (onMessage_cb h st payload))
             (filter (\<lambda>h. h = m) (onMessage (rooms st r)))) st"
| "deliver r StateChange st =
     exec (replicate (onStateChange (rooms st r)) (\<lambda>s. Returned (onStateChange_cb s) s)) st"

text \<open>What can happen to the object after its construction: the lobby join resolves,
  the application calls a join operation, a room join resolves with a new Room (the
  server assigns its session id; \<open>PublicResolved\<close> carries the \<open>userId\<close> of its
  call), a room that has been handed out notifies, the application calls an outbound
  operation, or the store gains or loses its table-talk manager. The event loop runs them one at a time; an exception ends the one that
  raised and the next one finds the state as it was left.\<close>

datatype stimulus =
    LobbyResolved
  | PublicCalled string
  | CustomByIdCalled string "string option"
  | CreateCustomCalled room_data
  | PublicResolved string string
  | CustomByIdResolved string
  | CustomCreated string
  | Notify nat notification
  | Call outbound
  | StoreManager bool

definition new_room :: "string \<Rightarrow> state \<Rightarrow> state" where
  "new_room sid st =
     st\<lparr>rooms := (rooms st)(next_room st := fresh_room sid), next_room := Suc (next_room st)\<rparr>"

fun step :: "stimulus \<Rightarrow> stmt" where
  "step LobbyResolved st = joinLobbyRoom_resolved st"
| "step (PublicCalled userId) st = joinOrCreatePublic_called userId st"
| "step (CustomByIdCalled roomId password) st = joinCustomById_called roomId password st"
| "step (CreateCustomCalled roomData) st = createCustom_called roomData st"
| "step (PublicResolved userId sid) st =
     joinOrCreatePublic_resolved userId (next_room st) (new_room sid st)"
| "step (CustomByIdResolved sid) st = joinCustomById_resolved (next_room st) (new_room sid st)"
| "step (CustomCreated sid) st = createCustom_resolved (next_room st) (new_room sid st)"
| "step (Notify r n) st = (if r < next_room st then deliver r n st else Returned [] st)"
| "step (Call c) st = lift_cb (call c st) st"
| "step (StoreManager b) st = Returned [] (st\<lparr>tableTalkManager := b\<rparr>)"

fun run :: "stimulus list \<Rightarrow> state \<Rightarrow> effect list \<times> state" where
  "run [] st = ([], st)"
| "run (s # ss) st =
     (let out = step s st; rest = run ss (state_of out)
      in (effects_of out @ fst rest, snd rest))"

section \<open>Vocabulary of the statements\<close>

fun is_send :: "effect \<Rightarrow> bool" where
  "is_send (Send r m p) = True"
| "is_send _ = False"

fun is_player_joined :: "effect \<Rightarrow> bool" where
  "is_player_joined (Emit (PLAYER_JOINED p k)) = True"
| "is_player_joined _ = False"

fun is_player_updated :: "effect \<Rightarrow> bool" where
  "is_player_updated (Emit (PLAYER_UPDATED f v k)) = True"
| "is_player_updated _ = False"

text \<open>The keys of the \<open>PLAYER_LEFT\<close> events of a trace, in order.\<close>

fun left_keys :: "effect list \<Rightarrow> string list" where
  "left_keys [] = []"
| "left_keys (Emit (PLAYER_LEFT k) # es) = k # left_keys es"
| "left_keys (e # es) = left_keys es"

text \<open>The keys of the \<open>PLAYER_JOINED\<close> events of a trace, in order.\<close>

fun joined_keys :: "effect list \<Rightarrow> string list" where
  "joined_keys [] = []"
| "joined_keys (Emit (PLAYER_JOINED p k) # es) = k # joined_keys es"
| "joined_keys (e # es) = joined_keys es"

text \<open>The changes that set the field \<open>name\<close> to something other than the empty
  string.\<close>

definition named :: "change list \<Rightarrow> change list" where
  "named cs = filter (\<lambda>c. fst c = ''name'' \<and> snd c \<noteq> JStr []) cs"

text \<open>An outbound call whose argument can be destructured: only \<open>updatePlayerName\<close>
  destructures one.\<close>

fun destructurable :: "outbound \<Rightarrow> bool" where
  "destructurable (UpdatePlayerName m) = (\<not> nullish m)"
| "destructurable _ = True"

text \<open>A room as \<open>initialize\<close> leaves a new one, and the state after the lobby join
  and one public join (user \<open>u1\<close>, session \<open>s1\<close>) have resolved.\<close>

definition installed_room :: "string \<Rightarrow> room_obj" where
  "installed_room sid =
     \<lparr>sessionId = sid, players = [], tables = [], chatMessages = [],
      players_onAdd = True, players_onRemove = True, tables_onAdd = True,
      chatMessages_onAdd = True,
      onMessage =
        [SEND_ROOM_DATA, ADD_CHAT_MESSAGE, DISCONNECT_STREAM, STOP_TABLE_TALK, RECEIVE_DM],
      onStateChange = Suc 0\<rparr>"

definition joined :: state where
  "joined =
     \<lparr>room = Some 0, lobby = Some LobbyLeft, webRTC = Some (JStr ''s1''),
      mySessionId = Some ''s1'', myUserId = Some ''u1'',
      rooms = (\<lambda>_. fresh_room [])(0 := installed_room ''s1''), next_room = Suc 0,
      tableTalkManager = False\<rparr>"

text \<open>A room on which some handler of \<open>initialize\<close> is installed; a room none of
  whose objects carries a listener; the fields every listener reads.\<close>

definition installed :: "room_obj \<Rightarrow> bool" where
  "installed ro =
     (players_onAdd ro \<or> players_onRemove ro \<or> tables_onAdd ro \<or> chatMessages_onAdd ro \<or>
      0 < length (onMessage ro) \<or> 0 < onStateChange ro)"

definition silent :: "room_obj \<Rightarrow> bool" where
  "silent ro =
     (\<not> installed ro \<and>
      list_all (\<lambda>kp. onChange (snd kp) = None) (players ro) \<and>
      list_all (\<lambda>kt. connectedUser_onAdd (snd kt) = None \<and>
                      connectedUser_onRemove (snd kt) = None) (tables ro))"

definition ready :: "state \<Rightarrow> bool" where
  "ready st = (room st \<noteq> None \<and> mySessionId st \<noteq> None \<and> webRTC st \<noteq> None)"

text \<open>Additions to and removals from the \<open>players\<close> collection, as notifications.\<close>

datatype membership =
    Added string "(string \<times> jsval) list"
  | Removed string player

fun notify_of :: "membership \<Rightarrow> notification" where
  "notify_of (Added key fs) = PlayersAdd key fs"
| "notify_of (Removed key p) = PlayersRemove key p"

fun removed_keys :: "membership list \<Rightarrow> string list" where
  "removed_keys [] = []"
| "removed_keys (Added key fs # ms) = removed_keys ms"
| "removed_keys (Removed key p # ms) = key # removed_keys ms"

text \<open>The keys of the additions that bring a non-empty name, the local key \<open>sid\<close>
  left out: one entry per such name among the initial fields.\<close>

fun added_named :: "string option \<Rightarrow> membership list \<Rightarrow> string list" where
  "added_named sid [] = []"
| "added_named sid (Added key fs # ms) =
     (if sid = Some key then [] else replicate (length (named fs)) key) @ added_named sid ms"
| "added_named sid (Removed key p # ms) = added_named sid ms"

text \<open>The message types \<open>initialize\<close> registers a handler for, in its order.\<close>

definition installed_messages :: "message list" where
  "installed_messages =
     [SEND_ROOM_DATA, ADD_CHAT_MESSAGE, DISCONNECT_STREAM, STOP_TABLE_TALK, RECEIVE_DM]"

text \<open>The state in which \<open>joinOrCreatePublic\<close> has assigned \<open>this.room\<close> and is about
  to call \<open>initialize\<close>: the lobby is open and nothing else is set.\<close>

definition assigned :: state where
  "assigned =
     \<lparr>room = Some 0, lobby = Some LobbyOpen, webRTC = None, mySessionId = None,
      myUserId = Some ''u1'', rooms = (\<lambda>_. fresh_room [])(0 := fresh_room ''s1''),
      next_room = Suc 0, tableTalkManager = False\<rparr>"

text \<open>In a trace, every \<open>PLAYER_JOINED\<close> is the one of player \<open>p\<close> and \<open>key\<close> and
  comes directly after a \<open>PLAYER_UPDATED\<close> of the field \<open>name\<close> for that key.\<close>

definition after_name_update :: "player \<Rightarrow> string \<Rightarrow> effect list \<Rightarrow> bool" where
  "after_name_update p key es =
     (\<forall>i < length es. is_player_joined (es ! i) \<longrightarrow>
        0 < i \<and> es ! i = Emit (PLAYER_JOINED p key) \<and>
        (\<exists>v. es ! (i - 1) = Emit (PLAYER_UPDATED ''name'' v key)))"

text \<open>A room with at most one state-change listener and one entry per player key.\<close>

definition tidy :: "room_obj \<Rightarrow> bool" where
  "tidy ro = (onStateChange ro \<le> 1 \<and> distinct (map fst (players ro)))"

text \<open>The session id a join resolution carries; \<open>None\<close> for any other stimulus.\<close>

fun resolved_sid :: "stimulus \<Rightarrow> string option" where
  "resolved_sid (PublicResolved userId sid) = Some sid"
| "resolved_sid (CustomByIdResolved sid) = Some sid"
| "resolved_sid (CustomCreated sid) = Some sid"
| "resolved_sid _ = None"

section \<open>Unfolding the model\<close>

lemmas outbound_defs =
  room_send_def updatePlayer_def updatePlayerName_def readyToConnect_def videoConnected_def
  webRTC_deleteVideoStream_def playerStreamDisconnect_def connectToTable_def
  updateChairStatus_def disconnectFromTable_def onStopTableTalk_def addChatMessage_def
  checkPrivateMessage_def sendPrivateMessage_def

lemmas initialize_defs =
  initialize_def initialize_stmts_def lobby_leave_def record_sessionId_def
  log_mySessionId_def log_myUserId_def dispatch_setSessionId_def new_WebRTC_def
  install_players_onAdd_def install_players_onRemove_def install_tables_onAdd_def
  install_chatMessages_onAdd_def register_onMessage_def register_onStateChange_def
  set_room_def

lemmas join_defs =
  joinLobbyRoom_resolved_def joinOrCreatePublic_resolved_def joinCustomById_resolved_def
  createCustom_resolved_def joinLobbyRoom_called_def joinOrCreatePublic_called_def
  joinCustomById_called_def createCustom_called_def new_room_def fresh_room_def

lemma run_join:
  "run [LobbyResolved, PublicCalled ''u1'', PublicResolved ''u1'' ''s1''] initial =
     ([Dispatch (SetLobbyJoined True), Client_joinOrCreate PUBLIC, LobbyLeave,
       ConsoleLog [JStr ''mySessionId'', JStr ''s1''],
       ConsoleLog [JStr ''myUserId'', JStr ''u1''],
       Dispatch (SetSessionId ''s1''), WebRTC_new (JStr ''s1'')], joined)"
  by (simp add: initial_def joined_def installed_room_def initialize_defs join_defs)

section \<open>Frame and invariant lemmas\<close>

text \<open>Statements that leave the state alone do so in sequence.\<close>

lemma exec_same_state:
  "(\<And>s st. s \<in> set ss \<Longrightarrow> state_of (s st) = st) \<Longrightarrow> state_of (exec ss st) = st"
proof (induction ss arbitrary: st)
  case Nil
  then show ?case by simp
next
  case (Cons s ss)
  have h: "state_of (s st) = st" using Cons.prems by simp
  have ih: "state_of (exec ss st) = st" using Cons by simp
  show ?case
  proof (cases "s st")
    case (Returned es st')
    with h have "st' = st" by simp
    with Returned ih show ?thesis by (cases "exec ss st") simp_all
  next
    case (Raised e es st')
    with h show ?thesis by simp
  qed
qed

lemma state_of_lift_cb: "state_of (lift_cb res st) = st"
  by (cases res) (simp_all add: lift_cb_def)

lemma deliver_Inbound_state: "state_of (deliver r (Inbound m payload) st) = st"
  unfolding deliver.simps by (rule exec_same_state) (auto simp: state_of_lift_cb)

lemma deliver_StateChange_state: "state_of (deliver r StateChange st) = st"
  unfolding deliver.simps by (rule exec_same_state) auto

lemma list_all_update:
  "list_all P al \<Longrightarrow> P (k, v) \<Longrightarrow> list_all P (AList.update k v al)"
  by (induction al) auto

lemma list_all_delete: "list_all P al \<Longrightarrow> list_all P (AList.delete k al)"
  by (induction al) auto

lemma map_of_list_all: "map_of al k = Some v \<Longrightarrow> list_all P al \<Longrightarrow> P (k, v)"
  by (auto simp: list_all_iff dest: map_of_SomeD)

text \<open>A notification assigns no field of the Network object and touches no room but
  its own.\<close>

lemma deliver_fields:
  "room (state_of (deliver r n st)) = room st \<and>
   lobby (state_of (deliver r n st)) = lobby st \<and>
   webRTC (state_of (deliver r n st)) = webRTC st \<and>
   mySessionId (state_of (deliver r n st)) = mySessionId st \<and>
   myUserId (state_of (deliver r n st)) = myUserId st \<and>
   next_room (state_of (deliver r n st)) = next_room st"
proof (cases n)
  case (Inbound m payload)
  then show ?thesis by (simp only: deliver_Inbound_state) 
next
  case StateChange
  then show ?thesis by (simp only: deliver_StateChange_state) 
qed (simp_all add: set_room_def Let_def split: option.splits)

lemma deliver_other_room:
  "r' \<noteq> r \<Longrightarrow> rooms (state_of (deliver r n st)) r' = rooms st r'"
proof (cases n)
  case (Inbound m payload)
  then show ?thesis by (simp only: deliver_Inbound_state) 
next
  case StateChange
  then show ?thesis by (simp only: deliver_StateChange_state) 
qed (simp_all add: set_room_def Let_def split: option.splits)

text \<open>The handlers of a room are installed by \<open>initialize\<close> only.\<close>

lemma deliver_handlers:
  "players_onAdd (rooms (state_of (deliver r n st)) r') = players_onAdd (rooms st r') \<and>
   players_onRemove (rooms (state_of (deliver r n st)) r') = players_onRemove (rooms st r') \<and>
   tables_onAdd (rooms (state_of (deliver r n st)) r') = tables_onAdd (rooms st r') \<and>
   chatMessages_onAdd (rooms (state_of (deliver r n st)) r') = chatMessages_onAdd (rooms st r') \<and>
   onMessage (rooms (state_of (deliver r n st)) r') = onMessage (rooms st r') \<and>
   onStateChange (rooms (state_of (deliver r n st)) r') = onStateChange (rooms st r') \<and>
   sessionId (rooms (state_of (deliver r n st)) r') = sessionId (rooms st r')"
proof (cases n)
  case (Inbound m payload)
  then show ?thesis by (simp only: deliver_Inbound_state) 
next
  case StateChange
  then show ?thesis by (simp only: deliver_StateChange_state) 
qed (simp_all add: set_room_def Let_def split: option.splits)

lemma deliver_silent:
  assumes "silent (rooms st r)"
  shows "silent (rooms (state_of (deliver r n st)) r)"
proof -
  have inst: "installed (rooms (state_of (deliver r n st)) r) = installed (rooms st r)"
    by (simp add: installed_def deliver_handlers)
  have A: "\<not> players_onAdd (rooms st r)" and T: "\<not> tables_onAdd (rooms st r)"
    using assms by (simp_all add: silent_def installed_def)
  have P: "list_all (\<lambda>kp. onChange (snd kp) = None) (players (rooms st r))"
    and Q: "list_all (\<lambda>kt. connectedUser_onAdd (snd kt) = None \<and>
                      connectedUser_onRemove (snd kt) = None) (tables (rooms st r))"
    using assms by (simp_all add: silent_def)
  have "list_all (\<lambda>kp. onChange (snd kp) = None) (players (rooms (state_of (deliver r n st)) r)) \<and>
        list_all (\<lambda>kt. connectedUser_onAdd (snd kt) = None \<and>
                      connectedUser_onRemove (snd kt) = None) (tables (rooms (state_of (deliver r n st)) r))"
  proof (cases n)
    case (Inbound m payload)
    then show ?thesis using P Q by (simp only: deliver_Inbound_state)
  next
    case StateChange
    then show ?thesis using P Q by (simp only: deliver_StateChange_state)
  next
    case (PlayerChange key changes)
    show ?thesis
    proof (cases "map_of (players (rooms st r)) key")
      case None
      with PlayerChange P Q show ?thesis by simp
    next
      case (Some p)
      then have "onChange p = None" using map_of_list_all [OF Some P] by simp
      with PlayerChange Some P Q show ?thesis
        by (simp add: set_room_def Let_def apply_changes_def list_all_update)
    qed
  next
    case (ConnectedUserAdd key item)
    show ?thesis
    proof (cases "map_of (tables (rooms st r)) key")
      case None
      with ConnectedUserAdd P Q show ?thesis by simp
    next
      case (Some t)
      then have "connectedUser_onAdd t = None \<and> connectedUser_onRemove t = None"
        using map_of_list_all [OF Some Q] by simp
      with ConnectedUserAdd Some P Q show ?thesis
        by (simp add: set_room_def list_all_update)
    qed
  next
    case (ConnectedUserRemove key item)
    show ?thesis
    proof (cases "map_of (tables (rooms st r)) key")
      case None
      with ConnectedUserRemove P Q show ?thesis by simp
    next
      case (Some t)
      then have "connectedUser_onAdd t = None \<and> connectedUser_onRemove t = None"
        using map_of_list_all [OF Some Q] by simp
      with ConnectedUserRemove Some P Q show ?thesis
        by (simp add: set_room_def list_all_update)
    qed
  qed (use A T P Q in \<open>simp_all add: set_room_def Let_def list_all_update list_all_delete\<close>)
  with inst assms show ?thesis by (simp add: silent_def)
qed

text \<open>What \<open>initialize\<close> does, in one equation per case.\<close>

lemma initialize_no_room: "room st = None \<Longrightarrow> initialize st = Returned [] st"
  by (simp add: initialize_def)

lemma initialize_no_lobby:
  "room st = Some r \<Longrightarrow> lobby st = None \<Longrightarrow> initialize st = Raised TypeError [] st"
  by (simp add: initialize_defs)

lemma initialize_runs:
  "room st = Some r \<Longrightarrow> lobby st = Some l \<Longrightarrow>
   initialize st =
     Returned
       [LobbyLeave,
        ConsoleLog [JStr ''mySessionId'', JStr (sessionId (rooms st r))],
        ConsoleLog [JStr ''myUserId'', opt_str (myUserId st)],
        Dispatch (SetSessionId (sessionId (rooms st r))),
        WebRTC_new (JStr (sessionId (rooms st r)))]
       (st\<lparr>lobby := Some LobbyLeft,
           mySessionId := Some (sessionId (rooms st r)),
           webRTC := Some (JStr (sessionId (rooms st r))),
           rooms := (rooms st)
             (r := (rooms st r)
                \<lparr>players_onAdd := True, players_onRemove := True, tables_onAdd := True,
                 chatMessages_onAdd := True,
                 onMessage := onMessage (rooms st r) @
                   [SEND_ROOM_DATA, ADD_CHAT_MESSAGE, DISCONNECT_STREAM, STOP_TABLE_TALK,
                    RECEIVE_DM],
                 onStateChange := Suc (onStateChange (rooms st r))\<rparr>)\<rparr>)"
  by (simp add: initialize_defs)

lemma initialize_ready:
  "room st \<noteq> None \<Longrightarrow> lobby st \<noteq> None \<Longrightarrow> ready (state_of (initialize st))"
  by (auto simp: initialize_runs ready_def)

lemma initialize_keeps_ready: "ready st \<Longrightarrow> ready (state_of (initialize st))"
  by (cases "lobby st") (auto simp: initialize_runs initialize_no_lobby ready_def)

lemma step_ready: "ready st \<Longrightarrow> ready (state_of (step s st))"
proof (cases s)
  case (Notify r n)
  assume "ready st"
  with Notify show ?thesis by (simp add: ready_def deliver_fields)
next
  case (Call c)
  assume "ready st"
  with Call show ?thesis by (simp add: state_of_lift_cb)
next
  case (PublicResolved u sid)
  have "ready (state_of (initialize (new_room sid st\<lparr>room := Some (next_room st), myUserId := Some u\<rparr>)))"
    if "ready st"
    by (rule initialize_keeps_ready) (use that in \<open>simp add: ready_def new_room_def\<close>)
  moreover assume "ready st"
  ultimately show ?thesis using PublicResolved by (simp add: joinOrCreatePublic_resolved_def)
next
  case (CustomByIdResolved sid)
  have "ready (state_of (initialize (new_room sid st\<lparr>room := Some (next_room st)\<rparr>)))"
    if "ready st"
    by (rule initialize_keeps_ready) (use that in \<open>simp add: ready_def new_room_def\<close>)
  moreover assume "ready st"
  ultimately show ?thesis using CustomByIdResolved by (simp add: joinCustomById_resolved_def)
next
  case (CustomCreated sid)
  have "ready (state_of (initialize (new_room sid st\<lparr>room := Some (next_room st)\<rparr>)))"
    if "ready st"
    by (rule initialize_keeps_ready) (use that in \<open>simp add: ready_def new_room_def\<close>)
  moreover assume "ready st"
  ultimately show ?thesis using CustomCreated by (simp add: createCustom_resolved_def)
qed (simp_all add: join_defs ready_def)

lemma silent_fresh_room: "silent (fresh_room sid)"
  by (simp add: silent_def installed_def fresh_room_def)

lemma initialize_silent:
  assumes "\<forall>r. silent (rooms st r)" and "room st \<noteq> None"
  shows "ready (state_of (initialize st)) \<or> (\<forall>r. silent (rooms (state_of (initialize st)) r))"
proof (cases "lobby st")
  case None
  with assms show ?thesis by (auto simp: initialize_no_lobby)
next
  case (Some l)
  with assms(2) show ?thesis by (simp add: initialize_ready)
qed

lemma step_silent:
  assumes "\<forall>r. silent (rooms st r)"
  shows "ready (state_of (step s st)) \<or> (\<forall>r. silent (rooms (state_of (step s st)) r))"
proof (cases s)
  case (Notify r n)
  have "silent (rooms (state_of (deliver r n st)) r')" for r'
  proof (cases "r' = r")
    case True
    with assms show ?thesis by (simp add: deliver_silent)
  next
    case False
    with assms show ?thesis by (simp add: deliver_other_room)
  qed
  with Notify assms show ?thesis by simp
next
  case (Call c)
  with assms show ?thesis by (simp add: state_of_lift_cb)
next
  case (PublicResolved u sid)
  have "\<forall>r. silent (rooms (new_room sid st\<lparr>room := Some (next_room st), myUserId := Some u\<rparr>) r)"
    using assms by (simp add: new_room_def silent_fresh_room)
  from initialize_silent [OF this] PublicResolved show ?thesis
    by (simp add: joinOrCreatePublic_resolved_def)
next
  case (CustomByIdResolved sid)
  have "\<forall>r. silent (rooms (new_room sid st\<lparr>room := Some (next_room st)\<rparr>) r)"
    using assms by (simp add: new_room_def silent_fresh_room)
  from initialize_silent [OF this] CustomByIdResolved show ?thesis
    by (simp add: joinCustomById_resolved_def)
next
  case (CustomCreated sid)
  have "\<forall>r. silent (rooms (new_room sid st\<lparr>room := Some (next_room st)\<rparr>) r)"
    using assms by (simp add: new_room_def silent_fresh_room)
  from initialize_silent [OF this] CustomCreated show ?thesis
    by (simp add: createCustom_resolved_def)
qed (use assms in \<open>simp_all add: join_defs\<close>)

lemma run_ready_or_silent:
  "ready st \<or> (\<forall>r. silent (rooms st r)) \<Longrightarrow>
   ready (snd (run ss st)) \<or> (\<forall>r. silent (rooms (snd (run ss st)) r))"
proof (induction ss arbitrary: st)
  case Nil
  then show ?case by simp
next
  case (Cons s ss)
  have "ready (state_of (step s st)) \<or> (\<forall>r. silent (rooms (state_of (step s st)) r))"
    using Cons.prems step_ready step_silent by blast
  from Cons.IH [OF this] show ?case by (simp add: Let_def)
qed

lemma reachable_ready_or_silent:
  "ready (snd (run ss initial)) \<or> silent (rooms (snd (run ss initial)) r)"
proof -
  have "\<forall>r. silent (rooms initial r)" by (simp add: initial_def silent_fresh_room)
  then show ?thesis using run_ready_or_silent [of initial ss] by blast
qed

lemma ready_of_handler:
  "\<not> silent (rooms (snd (run ss initial)) r) \<Longrightarrow> ready (snd (run ss initial))"
  using reachable_ready_or_silent [of ss r] by blast

text \<open>Every room keeps at most one state-change listener and distinct player keys.\<close>

lemma deliver_distinct:
  "distinct (map fst (players (rooms st r'))) \<Longrightarrow>
   distinct (map fst (players (rooms (state_of (deliver r n st)) r')))"
proof (cases n)
  case (Inbound m payload)
  assume "distinct (map fst (players (rooms st r')))"
  then show ?thesis unfolding Inbound by (simp only: deliver_Inbound_state)
next
  case StateChange
  assume "distinct (map fst (players (rooms st r')))"
  then show ?thesis unfolding StateChange by (simp only: deliver_StateChange_state)
qed (auto simp: set_room_def Let_def distinct_update distinct_delete split: option.splits)

lemma initialize_tidy:
  assumes "\<forall>r. tidy (rooms st r)" and "room st = Some a" and "onStateChange (rooms st a) = 0"
  shows "\<forall>r. tidy (rooms (state_of (initialize st)) r)"
proof (cases "lobby st")
  case None
  with assms show ?thesis by (simp add: initialize_no_lobby)
next
  case (Some l)
  with assms show ?thesis by (simp add: initialize_runs tidy_def)
qed

lemma step_tidy:
  assumes "\<forall>r. tidy (rooms st r)"
  shows "\<forall>r. tidy (rooms (state_of (step s st)) r)"
proof (cases s)
  case (Notify r n)
  with assms show ?thesis
    by (simp add: tidy_def deliver_handlers deliver_distinct del: deliver.simps)
next
  case (Call c)
  with assms show ?thesis by (simp add: state_of_lift_cb)
next
  case (PublicResolved u sid)
  have "\<forall>r. tidy (rooms (state_of (initialize
           (new_room sid st\<lparr>room := Some (next_room st), myUserId := Some u\<rparr>))) r)"
    by (rule initialize_tidy [where a = "next_room st"])
       (use assms in \<open>simp_all add: new_room_def fresh_room_def tidy_def\<close>)
  with PublicResolved show ?thesis by (simp add: joinOrCreatePublic_resolved_def)
next
  case (CustomByIdResolved sid)
  have "\<forall>r. tidy (rooms (state_of (initialize
           (new_room sid st\<lparr>room := Some (next_room st)\<rparr>))) r)"
    by (rule initialize_tidy [where a = "next_room st"])
       (use assms in \<open>simp_all add: new_room_def fresh_room_def tidy_def\<close>)
  with CustomByIdResolved show ?thesis by (simp add: joinCustomById_resolved_def)
next
  case (CustomCreated sid)
  have "\<forall>r. tidy (rooms (state_of (initialize
           (new_room sid st\<lparr>room := Some (next_room st)\<rparr>))) r)"
    by (rule initialize_tidy [where a = "next_room st"])
       (use assms in \<open>simp_all add: new_room_def fresh_room_def tidy_def\<close>)
  with CustomCreated show ?thesis by (simp add: createCustom_resolved_def)
qed (use assms in \<open>simp_all add: join_defs\<close>)

lemma run_tidy:
  "\<forall>r. tidy (rooms st r) \<Longrightarrow> \<forall>r. tidy (rooms (snd (run ss st)) r)"
proof (induction ss arbitrary: st)
  case Nil
  then show ?case by simp
next
  case (Cons s ss)
  from Cons.IH [OF step_tidy [OF Cons.prems]] show ?case by (simp add: Let_def)
qed

lemma reachable_tidy: "tidy (rooms (snd (run ss initial)) r)"
proof -
  have "\<forall>r. tidy (rooms initial r)" by (simp add: initial_def fresh_room_def tidy_def)
  from run_tidy [OF this] show ?thesis by simp
qed

section \<open>The change listener, change by change\<close>

lemma updated_on_change:
  "filter is_player_updated (on_change st p key c) =
     [Emit (PLAYER_UPDATED (fst c) (snd c) key)]"
  by (cases c) (simp add: on_change_def)

lemma joined_on_change:
  "filter is_player_joined (on_change st p key c) =
     (if fst c = ''name'' \<and> snd c \<noteq> JStr [] then [Emit (PLAYER_JOINED p key)] else [])"
  by (cases c) (simp add: on_change_def)

lemma after_name_update_on_change: "after_name_update p key (on_change st p key c)"
proof (cases c)
  case (Pair f v)
  show ?thesis
    unfolding after_name_update_def Pair on_change_def
    by (auto simp: nth_Cons' less_Suc_eq)
qed

lemma after_name_update_append:
  assumes "after_name_update p key xs" and "after_name_update p key ys"
  shows "after_name_update p key (xs @ ys)"
  unfolding after_name_update_def
proof (intro allI impI)
  fix i
  assume i: "i < length (xs @ ys)" and j: "is_player_joined ((xs @ ys) ! i)"
  show "0 < i \<and> (xs @ ys) ! i = Emit (PLAYER_JOINED p key) \<and>
        (\<exists>v. (xs @ ys) ! (i - 1) = Emit (PLAYER_UPDATED ''name'' v key))"
  proof (cases "i < length xs")
    case True
    with j have "is_player_joined (xs ! i)" by (simp add: nth_append)
    with assms(1) True have "0 < i \<and> xs ! i = Emit (PLAYER_JOINED p key) \<and>
        (\<exists>v. xs ! (i - 1) = Emit (PLAYER_UPDATED ''name'' v key))"
      by (simp add: after_name_update_def)
    moreover from True have "i - 1 < length xs" by simp
    ultimately show ?thesis using True by (simp add: nth_append)
  next
    case False
    define k where "k = i - length xs"
    from False i have k: "k < length ys" and ik: "i = length xs + k" by (simp_all add: k_def)
    with j have "is_player_joined (ys ! k)" by (simp add: nth_append)
    with assms(2) k have *: "0 < k \<and> ys ! k = Emit (PLAYER_JOINED p key) \<and>
        (\<exists>v. ys ! (k - 1) = Emit (PLAYER_UPDATED ''name'' v key))"
      by (simp add: after_name_update_def)
    then have "i - 1 = length xs + (k - 1)" using ik by simp
    then have "(xs @ ys) ! (i - 1) = ys ! (k - 1)" by (simp only: nth_append_length_plus)
    moreover have "(xs @ ys) ! i = ys ! k" using ik by (simp only: nth_append_length_plus)
    ultimately show ?thesis using * ik by simp
  qed
qed

lemma after_name_update_onChange:
  "after_name_update p key (player_onChange_cb st p key changes)"
proof (induction changes)
  case Nil
  show ?case by (simp add: player_onChange_cb_def after_name_update_def)
next
  case (Cons c changes)
  then show ?case
    using after_name_update_append [OF after_name_update_on_change]
    by (simp add: player_onChange_cb_def)
qed

section \<open>Additions and removals of players\<close>

lemma left_keys_append: "left_keys (xs @ ys) = left_keys xs @ left_keys ys"
  by (induction xs rule: left_keys.induct) simp_all

lemma joined_keys_append: "joined_keys (xs @ ys) = joined_keys xs @ joined_keys ys"
  by (induction xs rule: joined_keys.induct) simp_all

lemma onRemove_events:
  "joined_keys (players_onRemove_cb st p key) = [] \<and>
   left_keys (players_onRemove_cb st p key) = [key]"
  by (simp add: players_onRemove_cb_def webRTC_deleteVideoStream_def
      webRTC_deleteOnCalledVideoStream_def split: option.splits)

lemma onChange_events:
  "joined_keys (player_onChange_cb st p key cs) = replicate (length (named cs)) key \<and>
   left_keys (player_onChange_cb st p key cs) = []"
proof (induction cs)
  case Nil
  show ?case by (simp add: player_onChange_cb_def named_def)
next
  case (Cons c cs)
  obtain f v where c: "c = (f, v)" by (cases c)
  from Cons show ?case
    by (simp add: player_onChange_cb_def named_def on_change_def c joined_keys_append
        left_keys_append)
qed

lemma deliver_membership:
  "players_onAdd (rooms st r) \<Longrightarrow> players_onRemove (rooms st r) \<Longrightarrow>
   joined_keys (effects_of (deliver r (notify_of m) st)) = added_named (mySessionId st) [m] \<and>
   left_keys (effects_of (deliver r (notify_of m) st)) = removed_keys [m]"
  by (cases m) (simp_all add: Let_def onRemove_events onChange_events players_onAdd_cb_def)

lemma run_membership:
  "players_onAdd (rooms st r) \<Longrightarrow> players_onRemove (rooms st r) \<Longrightarrow> r < next_room st \<Longrightarrow>
   joined_keys (fst (run (map (\<lambda>m. Notify r (notify_of m)) ms) st)) =
     added_named (mySessionId st) ms \<and>
   left_keys (fst (run (map (\<lambda>m. Notify r (notify_of m)) ms) st)) = removed_keys ms"
proof (induction ms arbitrary: st)
  case Nil
  show ?case by simp
next
  case (Cons m ms)
  let ?st = "state_of (deliver r (notify_of m) st)"
  have "players_onAdd (rooms ?st r)" "players_onRemove (rooms ?st r)" "r < next_room ?st"
    using Cons.prems by (simp_all add: deliver_handlers deliver_fields)
  from Cons.IH [OF this] deliver_membership [OF Cons.prems(1,2), of m] Cons.prems(3)
  show ?case
    by (cases m)
       (simp_all add: Let_def left_keys_append joined_keys_append deliver_fields
          del: deliver.simps)
qed

section \<open>The order inside initialize\<close>

lemma initialize_prefix:
  assumes "\<not> installed (rooms st r)"
  shows "installed (rooms (state_of (exec (take n (initialize_stmts r)) st)) r) \<longrightarrow>
         lobby (state_of (exec (take n (initialize_stmts r)) st)) = Some LobbyLeft \<and>
         mySessionId (state_of (exec (take n (initialize_stmts r)) st)) =
           Some (sessionId (rooms st r))"
proof (cases "lobby st")
  case None
  have "state_of (exec (take n (initialize_stmts r)) st) = st"
    using None by (cases n) (simp_all add: initialize_stmts_def lobby_leave_def)
  with assms show ?thesis by simp
next
  case (Some l)
  with assms show ?thesis
    by (simp add: initialize_defs installed_def take_Cons split: nat.split)
qed

section \<open>Two joins in flight\<close>

lemma resolution_step:
  assumes "resolved_sid j = Some sid" and "lobby st = Some l"
  shows "state_of (step j st) =
           (case j of PublicResolved u s \<Rightarrow> st\<lparr>myUserId := Some u\<rparr> | _ \<Rightarrow> st)
           \<lparr>room := Some (next_room st), lobby := Some LobbyLeft,
            mySessionId := Some sid, webRTC := Some (JStr sid),
            rooms := (rooms st)(next_room st := installed_room sid),
            next_room := Suc (next_room st)\<rparr>"
  using assms
  by (cases j)
     (simp_all add: join_defs initialize_runs installed_room_def)

lemma resolution_pending:
  assumes "resolved_sid j = Some sid" and "lobby st = None"
  shows "raised (step j st) \<and> effects_of (step j st) = [] \<and>
         room (state_of (step j st)) = Some (next_room st) \<and>
         lobby (state_of (step j st)) = None \<and>
         mySessionId (state_of (step j st)) = mySessionId st \<and>
         next_room (state_of (step j st)) = Suc (next_room st) \<and>
         rooms (state_of (step j st)) = (rooms st)(next_room st := fresh_room sid)"
  using assms
  by (cases j)
     (simp_all add: joinOrCreatePublic_resolved_def joinCustomById_resolved_def
        createCustom_resolved_def new_room_def initialize_no_lobby)

section \<open>The claims\<close>

text \<open>
  C1, as amended. The change listener keeps no record of the previous name. A change
  of the field \<open>name\<close> to a value other than the empty string emits
  \<open>PLAYER_UPDATED\<close>, then \<open>PLAYER_JOINED\<close>, then the two store dispatches, whatever
  the player's name was before; any other change emits \<open>PLAYER_UPDATED\<close> and nothing
  else; a list of changes emits what its changes emit, in order. So the number of join
  events of one notification is the number of changes of \<open>name\<close> to a non-empty
  value in it. The listener is attached by \<open>players.onAdd\<close> to every player but the
  local one, and a change notification for a player that carries it runs it on the
  player as changed.
\<close>

theorem name_change_joins:
  "length (filter is_player_joined (player_onChange_cb st p key changes)) =
     length (filter (\<lambda>c. fst c = ''name'' \<and> snd c \<noteq> JStr []) changes) \<and>
   player_onChange_cb st p key (cs @ cs') =
     player_onChange_cb st p key cs @ player_onChange_cb st p key cs' \<and>
   (v \<noteq> JStr [] \<longrightarrow>
      player_onChange_cb st p key [(''name'', v)] =
        [Emit (PLAYER_UPDATED ''name'' v key), Emit (PLAYER_JOINED p key),
         Dispatch (SetPlayerNameMap key v (myUserId st)),
         Dispatch (PushPlayerJoinedMessage v)]) \<and>
   (\<not> (f = ''name'' \<and> v \<noteq> JStr []) \<longrightarrow>
      player_onChange_cb st p key [(f, v)] = [Emit (PLAYER_UPDATED f v key)]) \<and>
   onChange (players_onAdd_cb st p key) =
     (if mySessionId st = Some key then onChange p else Some key) \<and>
   (map_of (players (rooms st r)) key = Some q \<and> onChange q = Some k \<longrightarrow>
      effects_of (deliver r (PlayerChange key changes) st) =
        player_onChange_cb st (apply_changes changes q) k changes)"
proof (intro conjI impI)
  show "length (filter is_player_joined (player_onChange_cb st p key changes)) =
     length (filter (\<lambda>c. fst c = ''name'' \<and> snd c \<noteq> JStr []) changes)"
    by (induction changes) (simp_all add: player_onChange_cb_def joined_on_change)
  show "player_onChange_cb st p key (cs @ cs') =
     player_onChange_cb st p key cs @ player_onChange_cb st p key cs'"
    by (simp add: player_onChange_cb_def)
  show "player_onChange_cb st p key [(''name'', v)] =
        [Emit (PLAYER_UPDATED ''name'' v key), Emit (PLAYER_JOINED p key),
         Dispatch (SetPlayerNameMap key v (myUserId st)),
         Dispatch (PushPlayerJoinedMessage v)]" if "v \<noteq> JStr []"
    using that by (simp add: player_onChange_cb_def on_change_def)
  show "player_onChange_cb st p key [(f, v)] = [Emit (PLAYER_UPDATED f v key)]"
    if "\<not> (f = ''name'' \<and> v \<noteq> JStr [])"
    using that by (auto simp: player_onChange_cb_def on_change_def)
  show "onChange (players_onAdd_cb st p key) =
     (if mySessionId st = Some key then onChange p else Some key)"
    by (simp add: players_onAdd_cb_def)
  show "effects_of (deliver r (PlayerChange key changes) st) =
        player_onChange_cb st (apply_changes changes q) k changes"
    if "map_of (players (rooms st r)) key = Some q \<and> onChange q = Some k"
    using that by (simp add: Let_def apply_changes_def)
qed

theorem name_change_joins_witness:
  "JStr ''Bob'' \<noteq> JStr [] \<and>
   player_onChange_cb joined \<lparr>props = [(''name'', JStr ''Bob'')], onChange = Some ''s2''\<rparr>
       ''s2'' [(''name'', JStr ''Bob'')] =
     [Emit (PLAYER_UPDATED ''name'' (JStr ''Bob'') ''s2''),
      Emit (PLAYER_JOINED \<lparr>props = [(''name'', JStr ''Bob'')], onChange = Some ''s2''\<rparr>
              ''s2''),
      Dispatch (SetPlayerNameMap ''s2'' (JStr ''Bob'') (Some ''u1'')),
      Dispatch (PushPlayerJoinedMessage (JStr ''Bob''))] \<and>
   player_onChange_cb joined \<lparr>props = [(''x'', JNum 3)], onChange = Some ''s2''\<rparr>
       ''s2'' [(''x'', JNum 3)] =
     [Emit (PLAYER_UPDATED ''x'' (JNum 3) ''s2'')]"
proof -
  have a: "JStr ''Bob'' \<noteq> JStr []" by simp
  have b: "\<not> (''x'' = ''name'' \<and> JNum 3 \<noteq> JStr [])" by simp
  have u: "myUserId joined = Some ''u1''" by (simp add: joined_def)
  from name_change_joins [of joined
      "\<lparr>props = [(''name'', JStr ''Bob'')], onChange = Some ''s2''\<rparr>" "''s2''" "[]" "[]" "[]"
      "JStr ''Bob''" "''name''" 0 "\<lparr>props = [], onChange = None\<rparr>" "''s2''"] a u
  have c: "player_onChange_cb joined \<lparr>props = [(''name'', JStr ''Bob'')], onChange = Some ''s2''\<rparr>
       ''s2'' [(''name'', JStr ''Bob'')] =
     [Emit (PLAYER_UPDATED ''name'' (JStr ''Bob'') ''s2''),
      Emit (PLAYER_JOINED \<lparr>props = [(''name'', JStr ''Bob'')], onChange = Some ''s2''\<rparr>
              ''s2''),
      Dispatch (SetPlayerNameMap ''s2'' (JStr ''Bob'') (Some ''u1'')),
      Dispatch (PushPlayerJoinedMessage (JStr ''Bob''))]"
    by simp
  from name_change_joins [of joined
      "\<lparr>props = [(''x'', JNum 3)], onChange = Some ''s2''\<rparr>" "''s2''" "[]" "[]" "[]"
      "JNum 3" "''x''" 0 "\<lparr>props = [], onChange = None\<rparr>" "''s2''"] b
  have d: "player_onChange_cb joined \<lparr>props = [(''x'', JNum 3)], onChange = Some ''s2''\<rparr>
       ''s2'' [(''x'', JNum 3)] =
     [Emit (PLAYER_UPDATED ''x'' (JNum 3) ''s2'')]"
    by blast
  from a c d show ?thesis by blast
qed

text \<open>The claim as stated fails: after the remote player \<open>s2\<close> is added with an empty
  name, the changes of its name to Alice and then to Bob emit two join events.\<close>

theorem player_joined_twice_counterexample:
  "\<not> length (filter is_player_joined (fst (run
       [Notify 0 (PlayersAdd ''s2'' [(''name'', JStr [])]),
        Notify 0 (PlayerChange ''s2'' [(''name'', JStr ''Alice'')]),
        Notify 0 (PlayerChange ''s2'' [(''name'', JStr ''Bob'')])] joined))) \<le> 1"
  by (simp add: joined_def installed_room_def set_room_def players_onAdd_cb_def
      apply_changes_def player_onChange_cb_def on_change_def Let_def)

text \<open>
  C2, as amended. On a room whose handlers are installed, in a sequence of additions to
  and removals from the players collection, the \<open>PLAYER_JOINED\<close> events are, in
  order, one for each non-empty name among the initial fields of an added player whose
  key is not the local session id (the change listener attached by the addition runs on
  those fields), and none for any other addition or for a removal; the \<open>PLAYER_LEFT\<close>
  events for keys other than the local session id are, in order, the removed keys
  other than the local session id.
\<close>

theorem membership_events:
  assumes "players_onAdd (rooms st r)" and "players_onRemove (rooms st r)"
    and "r < next_room st"
  shows "joined_keys (fst (run (map (\<lambda>m. Notify r (notify_of m)) ms) st)) =
           added_named (mySessionId st) ms \<and>
         filter (\<lambda>k. mySessionId st \<noteq> Some k)
           (left_keys (fst (run (map (\<lambda>m. Notify r (notify_of m)) ms) st))) =
         filter (\<lambda>k. mySessionId st \<noteq> Some k) (removed_keys ms)"
  using run_membership [OF assms, of ms] by simp

theorem membership_events_witness:
  "players_onAdd (rooms joined 0) \<and> players_onRemove (rooms joined 0) \<and>
   0 < next_room joined \<and>
   joined_keys (fst (run (map (\<lambda>m. Notify 0 (notify_of m))
     [Added ''s2'' [(''name'', JStr [])], Added ''s3'' [(''name'', JStr ''Carol'')],
      Added ''s1'' [(''name'', JStr ''Me'')],
      Removed ''s2'' \<lparr>props = [(''name'', JStr [])], onChange = Some ''s2''\<rparr>]) joined)) =
     [''s3''] \<and>
   filter (\<lambda>k. mySessionId joined \<noteq> Some k)
     (left_keys (fst (run (map (\<lambda>m. Notify 0 (notify_of m))
       [Added ''s2'' [(''name'', JStr [])], Added ''s3'' [(''name'', JStr ''Carol'')],
        Added ''s1'' [(''name'', JStr ''Me'')],
        Removed ''s2'' \<lparr>props = [(''name'', JStr [])], onChange = Some ''s2''\<rparr>]) joined))) =
     [''s2'']"
proof -
  have a: "players_onAdd (rooms joined 0)" and b: "players_onRemove (rooms joined 0)"
    and c: "0 < next_room joined"
    by (simp_all add: joined_def installed_room_def)
  have d: "mySessionId joined = Some ''s1''" by (simp add: joined_def)
  show ?thesis
    using a b c
      membership_events [OF a b c, of
        "[Added ''s2'' [(''name'', JStr [])], Added ''s3'' [(''name'', JStr ''Carol'')],
          Added ''s1'' [(''name'', JStr ''Me'')],
          Removed ''s2'' \<lparr>props = [(''name'', JStr [])], onChange = Some ''s2''\<rparr>]"]
    by (simp add: d named_def)
qed

text \<open>The claim as stated fails: one addition of the remote key \<open>s2\<close>, which arrives
  with an empty name, is one operation whose key differs from the local session id
  \<open>s1\<close>, and it emits neither a join nor a leave event.\<close>

theorem membership_count_counterexample:
  "length (filter is_player_joined
       (fst (run [Notify 0 (PlayersAdd ''s2'' [(''name'', JStr [])])] joined))) +
   length (left_keys
       (fst (run [Notify 0 (PlayersAdd ''s2'' [(''name'', JStr [])])] joined))) \<noteq>
   length (filter (\<lambda>k. mySessionId joined \<noteq> Some k) [''s2''])"
  by (simp add: joined_def installed_room_def set_room_def players_onAdd_cb_def
      player_onChange_cb_def on_change_def Let_def)

text \<open>
  C3, as amended. Calling a join records nothing. When two room joins resolve one
  after the other, each resolution assigns its room to \<open>this.room\<close> and runs
  \<open>initialize\<close> on it. If the lobby join has resolved before: the room of the first
  resolution is active in between, the room of the last resolution is active afterwards
  with its session id recorded, and the room of the first resolution keeps every
  handler, so a notification of it still causes its effects. If the lobby join is
  still pending: each resolution raises at the release of the lobby, after the
  assignment, with no effect and no handler installed on either room.
\<close>

theorem both_sessions_live:
  assumes "resolved_sid j1 = Some s1" and "resolved_sid j2 = Some s2"
  shows "state_of (step (PublicCalled u) st) = st \<and>
         state_of (step (CustomByIdCalled roomId password) st) = st \<and>
         state_of (step (CreateCustomCalled roomData) st) = st \<and>
         (lobby st \<noteq> None \<longrightarrow>
            room (state_of (step j1 st)) = Some (next_room st) \<and>
            room (state_of (step j2 (state_of (step j1 st)))) = Some (Suc (next_room st)) \<and>
            mySessionId (state_of (step j2 (state_of (step j1 st)))) = Some s2 \<and>
            rooms (state_of (step j2 (state_of (step j1 st)))) (next_room st) =
              installed_room s1 \<and>
            rooms (state_of (step j2 (state_of (step j1 st)))) (Suc (next_room st)) =
              installed_room s2 \<and>
            effects_of (step (Notify (next_room st) (ChatAdd item))
                          (state_of (step j2 (state_of (step j1 st))))) =
              [Dispatch (PushChatMessage item)]) \<and>
         (lobby st = None \<longrightarrow>
            raised (step j1 st) \<and> effects_of (step j1 st) = [] \<and>
            raised (step j2 (state_of (step j1 st))) \<and>
            effects_of (step j2 (state_of (step j1 st))) = [] \<and>
            room (state_of (step j1 st)) = Some (next_room st) \<and>
            room (state_of (step j2 (state_of (step j1 st)))) = Some (Suc (next_room st)) \<and>
            mySessionId (state_of (step j2 (state_of (step j1 st)))) = mySessionId st \<and>
            rooms (state_of (step j2 (state_of (step j1 st)))) (next_room st) =
              fresh_room s1 \<and>
            rooms (state_of (step j2 (state_of (step j1 st)))) (Suc (next_room st)) =
              fresh_room s2)"
proof (intro conjI impI)
  show "state_of (step (PublicCalled u) st) = st"
    and "state_of (step (CustomByIdCalled roomId password) st) = st"
    and "state_of (step (CreateCustomCalled roomData) st) = st"
    by (simp_all add: joinOrCreatePublic_called_def joinCustomById_called_def
        createCustom_called_def)
next
  assume "lobby st \<noteq> None"
  then obtain l where l: "lobby st = Some l" by blast
  let ?st1 = "state_of (step j1 st)"
  have l1: "lobby ?st1 = Some LobbyLeft" and n1: "next_room ?st1 = Suc (next_room st)"
    and r0: "rooms ?st1 (next_room st) = installed_room s1"
    by (simp_all add: resolution_step [OF assms(1) l])
  show "room ?st1 = Some (next_room st)"
    by (simp add: resolution_step [OF assms(1) l])
  show "room (state_of (step j2 ?st1)) = Some (Suc (next_room st))"
    and "mySessionId (state_of (step j2 ?st1)) = Some s2"
    and "rooms (state_of (step j2 ?st1)) (next_room st) = installed_room s1"
    and "rooms (state_of (step j2 ?st1)) (Suc (next_room st)) = installed_room s2"
    and "effects_of (step (Notify (next_room st) (ChatAdd item)) (state_of (step j2 ?st1))) =
           [Dispatch (PushChatMessage item)]"
    using r0 n1
    by (simp_all add: resolution_step [OF assms(2) l1] installed_room_def set_room_def
        chatMessages_onAdd_cb_def)
next
  assume l: "lobby st = None"
  let ?st1 = "state_of (step j1 st)"
  note p1 = resolution_pending [OF assms(1) l]
  from p1 have l1: "lobby ?st1 = None" by blast
  note p2 = resolution_pending [OF assms(2) l1]
  from p1 show "raised (step j1 st)" and "effects_of (step j1 st) = []"
    and "room ?st1 = Some (next_room st)"
    by blast+
  from p2 show "raised (step j2 ?st1)" and "effects_of (step j2 ?st1) = []"
    by blast+
  from p1 have n1: "next_room ?st1 = Suc (next_room st)"
    and r1: "rooms ?st1 = (rooms st)(next_room st := fresh_room s1)"
    and m1: "mySessionId ?st1 = mySessionId st"
    by blast+
  from p2 have r2: "rooms (state_of (step j2 ?st1)) = (rooms ?st1)(next_room ?st1 := fresh_room s2)"
    and q2: "room (state_of (step j2 ?st1)) = Some (next_room ?st1)"
    and m2: "mySessionId (state_of (step j2 ?st1)) = mySessionId ?st1"
    by blast+
  from q2 n1 show "room (state_of (step j2 ?st1)) = Some (Suc (next_room st))"
    by (simp only:)
  from m2 m1 show "mySessionId (state_of (step j2 ?st1)) = mySessionId st"
    by (simp only:)
  show "rooms (state_of (step j2 ?st1)) (next_room st) = fresh_room s1"
    by (simp only: r2 r1 n1) simp
  show "rooms (state_of (step j2 ?st1)) (Suc (next_room st)) = fresh_room s2"
    by (simp only: r2 r1 n1) simp
qed

theorem both_sessions_live_witness:
  "resolved_sid (PublicResolved ''u2'' ''sB'') = Some ''sB'' \<and>
   resolved_sid (PublicResolved ''u1'' ''sA'') = Some ''sA'' \<and>
   lobby (state_of (step LobbyResolved initial)) \<noteq> None \<and>
   room (state_of (step (PublicResolved ''u1'' ''sA'')
          (state_of (step (PublicResolved ''u2'' ''sB'')
             (state_of (step LobbyResolved initial)))))) = Some 1 \<and>
   rooms (state_of (step (PublicResolved ''u1'' ''sA'')
          (state_of (step (PublicResolved ''u2'' ''sB'')
             (state_of (step LobbyResolved initial)))))) 0 = installed_room ''sB'' \<and>
   effects_of (step (Notify 0 (ChatAdd (JStr ''hi'')))
     (state_of (step (PublicResolved ''u1'' ''sA'')
        (state_of (step (PublicResolved ''u2'' ''sB'')
           (state_of (step LobbyResolved initial))))))) =
     [Dispatch (PushChatMessage (JStr ''hi''))] \<and>
   lobby initial = None \<and>
   raised (step (PublicResolved ''u2'' ''sB'') initial) \<and>
   rooms (state_of (step (PublicResolved ''u1'' ''sA'')
          (state_of (step (PublicResolved ''u2'' ''sB'') initial)))) 0 = fresh_room ''sB''"
proof -
  have a: "resolved_sid (PublicResolved ''u2'' ''sB'') = Some ''sB''"
    and b: "resolved_sid (PublicResolved ''u1'' ''sA'') = Some ''sA''"
    by simp_all
  have c: "lobby (state_of (step LobbyResolved initial)) \<noteq> None"
    by (simp add: joinLobbyRoom_resolved_def)
  have n: "next_room (state_of (step LobbyResolved initial)) = 0"
    by (simp add: joinLobbyRoom_resolved_def initial_def)
  have d: "lobby initial = None" and n0: "next_room initial = 0"
    by (simp_all add: initial_def)
  show ?thesis
    using a b c d
      both_sessions_live [OF a b, where u = "''u1''" and item = "JStr ''hi''"
        and st = "state_of (step LobbyResolved initial)"]
      both_sessions_live [OF a b, where u = "''u1''" and item = "JStr ''hi''"
        and st = initial]
    by (simp only: n n0) simp
qed

text \<open>The claim as stated fails. The join of user \<open>u1\<close> is called first and resolves
  last, after the join of user \<open>u2\<close>: its session \<open>sA\<close> is then the active one, it is
  not discarded, and the session \<open>sB\<close> that resolved first is not discarded either:
  the rooms of both still turn a notification into an effect.\<close>

theorem late_join_counterexample:
  "room (snd (run [LobbyResolved, PublicCalled ''u1'', PublicCalled ''u2'',
                   PublicResolved ''u2'' ''sB'', PublicResolved ''u1'' ''sA''] initial)) = Some 1 \<and>
   mySessionId (snd (run [LobbyResolved, PublicCalled ''u1'', PublicCalled ''u2'',
                   PublicResolved ''u2'' ''sB'', PublicResolved ''u1'' ''sA''] initial)) =
     Some ''sA'' \<and>
   myUserId (snd (run [LobbyResolved, PublicCalled ''u1'', PublicCalled ''u2'',
                   PublicResolved ''u2'' ''sB'', PublicResolved ''u1'' ''sA''] initial)) =
     Some ''u1'' \<and>
   effects_of (step (Notify 1 (ChatAdd (JStr ''hi'')))
     (snd (run [LobbyResolved, PublicCalled ''u1'', PublicCalled ''u2'',
                PublicResolved ''u2'' ''sB'', PublicResolved ''u1'' ''sA''] initial))) =
     [Dispatch (PushChatMessage (JStr ''hi''))] \<and>
   effects_of (step (Notify 0 (ChatAdd (JStr ''hi'')))
     (snd (run [LobbyResolved, PublicCalled ''u1'', PublicCalled ''u2'',
                PublicResolved ''u2'' ''sB'', PublicResolved ''u1'' ''sA''] initial))) =
     [Dispatch (PushChatMessage (JStr ''hi''))]"
  by (simp add: initial_def initialize_defs join_defs chatMessages_onAdd_cb_def)

text \<open>
  C4. In every state the object can reach, on every room on which \<open>initialize\<close> has
  installed \<open>players.onRemove\<close>, a removal of key \<open>K\<close> emits \<open>PLAYER_LEFT(K)\<close> and
  calls \<open>deleteVideoStream(K)\<close> and \<open>deleteOnCalledVideoStream(K)\<close> on the WebRTC
  object, whatever messages were received before: when the handler is installed, the
  WebRTC object exists.
\<close>

theorem remove_tears_down:
  assumes "players_onRemove (rooms (snd (run ss initial)) r)"
  shows "effects_of (deliver r (PlayersRemove key p) (snd (run ss initial))) =
           [Emit (PLAYER_LEFT key), DeleteVideoStream (JStr key),
            DeleteOnCalledVideoStream (JStr key),
            Dispatch (PushPlayerLeftMessage (player_name p)),
            Dispatch (RemovePlayerNameMap key)]"
proof -
  have "\<not> silent (rooms (snd (run ss initial)) r)"
    using assms by (simp add: silent_def installed_def)
  then have "webRTC (snd (run ss initial)) \<noteq> None"
    using ready_of_handler by (auto simp: ready_def)
  with assms show ?thesis
    by (auto simp: players_onRemove_cb_def webRTC_deleteVideoStream_def
        webRTC_deleteOnCalledVideoStream_def)
qed

theorem remove_tears_down_witness:
  "players_onRemove
     (rooms (snd (run [LobbyResolved, PublicCalled ''u1'', PublicResolved ''u1'' ''s1'']
                    initial)) 0) \<and>
   effects_of (deliver 0 (PlayersRemove ''s2'' \<lparr>props = [(''name'', JStr ''Carol'')],
                                                onChange = Some ''s2''\<rparr>)
     (snd (run [LobbyResolved, PublicCalled ''u1'', PublicResolved ''u1'' ''s1''] initial))) =
     [Emit (PLAYER_LEFT ''s2''), DeleteVideoStream (JStr ''s2''),
      DeleteOnCalledVideoStream (JStr ''s2''),
      Dispatch (PushPlayerLeftMessage (JStr ''Carol'')),
      Dispatch (RemovePlayerNameMap ''s2'')]"
proof -
  have a: "players_onRemove
     (rooms (snd (run [LobbyResolved, PublicCalled ''u1'', PublicResolved ''u1'' ''s1'']
                    initial)) 0)"
    by (simp only: run_join) (simp add: joined_def installed_room_def)
  show ?thesis
    using a remove_tears_down [OF a, of "''s2''"
        "\<lparr>props = [(''name'', JStr ''Carol'')], onChange = Some ''s2''\<rparr>"]
    by (simp add: player_name_def)
qed

text \<open>
  C5, as amended. Inbound payloads are not validated. On a room with the handlers of
  \<open>initialize\<close>, every inbound message whose payload is not \<open>null\<close> or \<open>undefined\<close>,
  and every message other than the chat broadcast whatever its payload, returns
  normally and leaves the object as it was. What it does with the payload, unchecked:
  room data goes to the store; a chat broadcast emits \<open>UPDATE_DIALOG_BUBBLE\<close> with the
  payload's \<open>clientId\<close> and \<open>content\<close>, \<open>undefined\<close> where the field is missing; a
  disconnect-stream payload goes to \<open>deleteOnCalledVideoStream\<close> when a WebRTC object
  exists; a stop-table-talk payload goes to the table-talk manager when the store holds
  one, and is dropped when it holds none; a private-message notice goes to the console;
  a message of any other type does nothing.
\<close>

theorem inbound_passed_on:
  assumes "onMessage (rooms st r) = installed_messages"
    and "m = ADD_CHAT_MESSAGE \<longrightarrow> \<not> nullish payload"
  shows "deliver r (Inbound m payload) st =
           Returned
             (case m of
                SEND_ROOM_DATA \<Rightarrow> [Dispatch (SetJoinedRoomData payload)]
              | ADD_CHAT_MESSAGE \<Rightarrow>
                  [Emit (UPDATE_DIALOG_BUBBLE (get_field payload ''clientId'')
                           (get_field payload ''content''))]
              | DISCONNECT_STREAM \<Rightarrow>
                  (case webRTC st of None \<Rightarrow> [] | Some w \<Rightarrow> [DeleteOnCalledVideoStream payload])
              | STOP_TABLE_TALK \<Rightarrow>
                  (if tableTalkManager st then [TableTalk_onUserLeft payload] else [])
              | RECEIVE_DM \<Rightarrow> [ConsoleLog [payload]]
              | _ \<Rightarrow> []) st"
  using assms
  by (cases m)
     (simp_all add: installed_messages_def lift_cb_def webRTC_deleteOnCalledVideoStream_def)

theorem inbound_passed_on_witness:
  "onMessage (rooms joined 0) = installed_messages \<and>
   \<not> nullish (JObj [(''clientId'', JStr ''s2'')]) \<and>
   deliver 0 (Inbound ADD_CHAT_MESSAGE (JObj [(''clientId'', JStr ''s2'')])) joined =
     Returned [Emit (UPDATE_DIALOG_BUBBLE (JStr ''s2'') JUndefined)] joined \<and>
   deliver 0 (Inbound STOP_TABLE_TALK (JStr ''s2'')) joined = Returned [] joined \<and>
   deliver 0 (Inbound STOP_TABLE_TALK (JStr ''s2'')) (joined\<lparr>tableTalkManager := True\<rparr>) =
     Returned [TableTalk_onUserLeft (JStr ''s2'')] (joined\<lparr>tableTalkManager := True\<rparr>)"
proof -
  have a: "onMessage (rooms joined 0) = installed_messages"
    and a': "onMessage (rooms (joined\<lparr>tableTalkManager := True\<rparr>) 0) = installed_messages"
    by (simp_all add: joined_def installed_room_def installed_messages_def)
  have b: "ADD_CHAT_MESSAGE = ADD_CHAT_MESSAGE \<longrightarrow> \<not> nullish (JObj [(''clientId'', JStr ''s2'')])"
    and c: "STOP_TABLE_TALK = ADD_CHAT_MESSAGE \<longrightarrow> \<not> nullish (JStr ''s2'')"
    by simp_all
  have t: "\<not> tableTalkManager joined" by (simp add: joined_def)
  show ?thesis
    using a t inbound_passed_on [OF a b] inbound_passed_on [OF a c]
      inbound_passed_on [OF a' c]
    by (simp del: deliver.simps)
qed

text \<open>The claim as stated fails: a chat broadcast whose payload has neither field is
  not dropped, and one whose payload is \<open>null\<close> raises.\<close>

theorem inbound_counterexample:
  "effects_of (deliver 0 (Inbound ADD_CHAT_MESSAGE (JObj [])) joined) \<noteq> [] \<and>
   raised (deliver 0 (Inbound ADD_CHAT_MESSAGE JNull) joined)"
  by (simp add: joined_def installed_room_def lift_cb_def)

text \<open>
  C6. Run on a room without handlers, \<open>initialize\<close> reaches no point at which a
  handler is installed on the room and the lobby is not yet left or the session id not
  yet recorded: this holds after every number of its statements. And in every state
  the object can reach, a room that carries any handler or listener finds the session
  id recorded.
\<close>

theorem identity_before_handlers:
  "(\<not> installed (rooms st r) \<longrightarrow>
      (\<forall>n. installed (rooms (state_of (exec (take n (initialize_stmts r)) st)) r) \<longrightarrow>
           lobby (state_of (exec (take n (initialize_stmts r)) st)) = Some LobbyLeft \<and>
           mySessionId (state_of (exec (take n (initialize_stmts r)) st)) =
             Some (sessionId (rooms st r)))) \<and>
   (\<not> silent (rooms (snd (run ss initial)) r') \<longrightarrow>
      mySessionId (snd (run ss initial)) \<noteq> None)"
proof (intro conjI impI allI)
  fix n
  assume "\<not> installed (rooms st r)"
    and "installed (rooms (state_of (exec (take n (initialize_stmts r)) st)) r)"
  then show "lobby (state_of (exec (take n (initialize_stmts r)) st)) = Some LobbyLeft"
    and "mySessionId (state_of (exec (take n (initialize_stmts r)) st)) =
           Some (sessionId (rooms st r))"
    using initialize_prefix [of st r n] by simp_all
next
  assume "\<not> silent (rooms (snd (run ss initial)) r')"
  then show "mySessionId (snd (run ss initial)) \<noteq> None"
    using ready_of_handler by (auto simp: ready_def)
qed

theorem identity_before_handlers_witness:
  "\<not> installed (rooms assigned 0) \<and>
   installed (rooms (state_of (exec (take 7 (initialize_stmts 0)) assigned)) 0) \<and>
   lobby (state_of (exec (take 7 (initialize_stmts 0)) assigned)) = Some LobbyLeft \<and>
   mySessionId (state_of (exec (take 7 (initialize_stmts 0)) assigned)) = Some ''s1'' \<and>
   \<not> silent (rooms (snd (run [LobbyResolved, PublicCalled ''u1'', PublicResolved ''u1'' ''s1'']
                           initial)) 0) \<and>
   mySessionId (snd (run [LobbyResolved, PublicCalled ''u1'', PublicResolved ''u1'' ''s1'']
                      initial)) \<noteq> None"
proof -
  have a: "\<not> installed (rooms assigned 0)"
    by (simp add: assigned_def fresh_room_def installed_def)
  have b: "installed (rooms (state_of (exec (take 7 (initialize_stmts 0)) assigned)) 0)"
    by (simp add: assigned_def fresh_room_def installed_def initialize_defs)
  have c: "\<not> silent (rooms (snd (run [LobbyResolved, PublicCalled ''u1'',
                                      PublicResolved ''u1'' ''s1''] initial)) 0)"
    by (simp only: run_join) (simp add: joined_def installed_room_def silent_def installed_def)
  have d: "sessionId (rooms assigned 0) = ''s1''"
    by (simp add: assigned_def fresh_room_def)
  show ?thesis
    using a b c d
      identity_before_handlers [of assigned 0
        "[LobbyResolved, PublicCalled ''u1'', PublicResolved ''u1'' ''s1'']" 0]
    by metis
qed

text \<open>
  C7. One run of the change listener emits exactly one \<open>PLAYER_UPDATED(field, value,
  key)\<close> per change, in the order of the changes, and every \<open>PLAYER_JOINED\<close> it emits
  comes directly after the \<open>PLAYER_UPDATED\<close> of the field \<open>name\<close>.
\<close>

theorem onChange_order:
  "filter is_player_updated (player_onChange_cb st p key changes) =
     map (\<lambda>c. Emit (PLAYER_UPDATED (fst c) (snd c) key)) changes \<and>
   (\<forall>i < length (player_onChange_cb st p key changes).
      is_player_joined (player_onChange_cb st p key changes ! i) \<longrightarrow>
      0 < i \<and>
      player_onChange_cb st p key changes ! i = Emit (PLAYER_JOINED p key) \<and>
      (\<exists>v. player_onChange_cb st p key changes ! (i - 1) =
             Emit (PLAYER_UPDATED ''name'' v key)))"
proof
  show "filter is_player_updated (player_onChange_cb st p key changes) =
     map (\<lambda>c. Emit (PLAYER_UPDATED (fst c) (snd c) key)) changes"
    by (induction changes) (simp_all add: player_onChange_cb_def updated_on_change)
  show "\<forall>i < length (player_onChange_cb st p key changes).
      is_player_joined (player_onChange_cb st p key changes ! i) \<longrightarrow>
      0 < i \<and>
      player_onChange_cb st p key changes ! i = Emit (PLAYER_JOINED p key) \<and>
      (\<exists>v. player_onChange_cb st p key changes ! (i - 1) =
             Emit (PLAYER_UPDATED ''name'' v key))"
    using after_name_update_onChange [of p key st changes]
    by (simp add: after_name_update_def)
qed

theorem onChange_order_witness:
  "Suc (Suc 0) < length (player_onChange_cb joined \<lparr>props = [], onChange = Some ''s2''\<rparr> ''s2''
                 [(''x'', JNum 3), (''name'', JStr ''Carol'')]) \<and>
   is_player_joined (player_onChange_cb joined \<lparr>props = [], onChange = Some ''s2''\<rparr> ''s2''
                 [(''x'', JNum 3), (''name'', JStr ''Carol'')] ! Suc (Suc 0)) \<and>
   filter is_player_updated (player_onChange_cb joined \<lparr>props = [], onChange = Some ''s2''\<rparr>
                 ''s2'' [(''x'', JNum 3), (''name'', JStr ''Carol'')]) =
     [Emit (PLAYER_UPDATED ''x'' (JNum 3) ''s2''),
      Emit (PLAYER_UPDATED ''name'' (JStr ''Carol'') ''s2'')] \<and>
   (\<exists>v. player_onChange_cb joined \<lparr>props = [], onChange = Some ''s2''\<rparr> ''s2''
          [(''x'', JNum 3), (''name'', JStr ''Carol'')] ! Suc 0 =
        Emit (PLAYER_UPDATED ''name'' v ''s2''))"
proof -
  let ?es = "player_onChange_cb joined \<lparr>props = [], onChange = Some ''s2''\<rparr> ''s2''
                 [(''x'', JNum 3), (''name'', JStr ''Carol'')]"
  have a: "Suc (Suc 0) < length ?es"
    by (simp add: player_onChange_cb_def on_change_def)
  have b: "is_player_joined (?es ! Suc (Suc 0))"
    by (simp add: player_onChange_cb_def on_change_def)
  from onChange_order [of joined "\<lparr>props = [], onChange = Some ''s2''\<rparr>" "''s2''"
      "[(''x'', JNum 3), (''name'', JStr ''Carol'')]"]
  have f: "filter is_player_updated ?es =
             map (\<lambda>c. Emit (PLAYER_UPDATED (fst c) (snd c) ''s2''))
               [(''x'', JNum 3), (''name'', JStr ''Carol'')]"
    and g: "\<forall>i < length ?es. is_player_joined (?es ! i) \<longrightarrow>
              0 < i \<and> ?es ! i = Emit (PLAYER_JOINED \<lparr>props = [], onChange = Some ''s2''\<rparr> ''s2'') \<and>
              (\<exists>v. ?es ! (i - 1) = Emit (PLAYER_UPDATED ''name'' v ''s2''))"
    by blast+
  from g a b have "\<exists>v. ?es ! (Suc (Suc 0) - 1) = Emit (PLAYER_UPDATED ''name'' v ''s2'')"
    by blast
  then have "\<exists>v. ?es ! Suc 0 = Emit (PLAYER_UPDATED ''name'' v ''s2'')" by simp
  with a b f show ?thesis by simp
qed

text \<open>
  C8. In every state the object can reach, a state-change notification of a room on
  which \<open>initialize\<close> has registered its listener dispatches \<open>setNumPlayer\<close> once,
  with the number of entries of the players collection of \<open>this.room\<close> at that
  moment (its keys are distinct), and changes nothing.
\<close>

theorem stateChange_publishes_size:
  assumes "0 < onStateChange (rooms (snd (run ss initial)) r)"
  shows "\<exists>a. room (snd (run ss initial)) = Some a \<and>
             distinct (map fst (players (rooms (snd (run ss initial)) a))) \<and>
             deliver r StateChange (snd (run ss initial)) =
               Returned
                 [Dispatch (SetNumPlayer (length (players (rooms (snd (run ss initial)) a))))]
                 (snd (run ss initial))"
proof -
  let ?st = "snd (run ss initial)"
  have "\<not> silent (rooms ?st r)" using assms by (simp add: silent_def installed_def)
  then have "room ?st \<noteq> None" using ready_of_handler by (auto simp: ready_def)
  then obtain a where a: "room ?st = Some a" by blast
  have "onStateChange (rooms ?st r) \<le> 1" using reachable_tidy [of ss r] by (simp add: tidy_def)
  with assms have one: "onStateChange (rooms ?st r) = Suc 0" by simp
  have "distinct (map fst (players (rooms ?st a)))"
    using reachable_tidy [of ss a] by (simp add: tidy_def)
  with a one show ?thesis by (simp add: onStateChange_cb_def)
qed

theorem stateChange_publishes_size_witness:
  "0 < onStateChange
         (rooms (snd (run [LobbyResolved, PublicCalled ''u1'', PublicResolved ''u1'' ''s1'',
                           Notify 0 (PlayersAdd ''s1'' []), Notify 0 (PlayersAdd ''s2'' [])]
                        initial)) 0) \<and>
   effects_of (deliver 0 StateChange
     (snd (run [LobbyResolved, PublicCalled ''u1'', PublicResolved ''u1'' ''s1'',
                Notify 0 (PlayersAdd ''s1'' []), Notify 0 (PlayersAdd ''s2'' [])] initial))) =
     [Dispatch (SetNumPlayer 2)]"
proof -
  let ?st = "snd (run [LobbyResolved, PublicCalled ''u1'', PublicResolved ''u1'' ''s1'',
                Notify 0 (PlayersAdd ''s1'' []), Notify 0 (PlayersAdd ''s2'' [])] initial)"
  have a: "0 < onStateChange (rooms ?st 0)"
    by (simp add: initial_def initialize_defs join_defs players_onAdd_cb_def Let_def)
  have r: "room ?st = Some 0"
    by (simp add: initial_def initialize_defs join_defs players_onAdd_cb_def Let_def)
  have n: "length (players (rooms ?st 0)) = 2"
    by (simp add: initial_def initialize_defs join_defs players_onAdd_cb_def Let_def)
  from stateChange_publishes_size [OF a] obtain a' where
    ra: "room ?st = Some a'" and
    d: "deliver 0 StateChange ?st =
          Returned [Dispatch (SetNumPlayer (length (players (rooms ?st a'))))] ?st"
    by blast
  from ra r have "a' = 0" by (metis option.inject)
  with d have "effects_of (deliver 0 StateChange ?st) =
      [Dispatch (SetNumPlayer (length (players (rooms ?st 0))))]"
    by (simp only: effects_of.simps)
  with n have "effects_of (deliver 0 StateChange ?st) = [Dispatch (SetNumPlayer 2)]"
    by (simp only:)
  with a show ?thesis by blast
qed

text \<open>
  C9, as amended. While no room is joined, every outbound operation sends no message,
  and it returns normally provided its argument can be destructured, which only
  \<open>updatePlayerName\<close> requires: that operation destructures its message before the
  guarded send, so on \<open>null\<close> or \<open>undefined\<close> it raises a TypeError, whether a room
  is joined or not.
\<close>

theorem outbound_before_join:
  "(room st = None \<longrightarrow> destructurable c \<longrightarrow>
      (\<exists>es. call c st = Inr es \<and> filter is_send es = [])) \<and>
   (\<not> destructurable c \<longrightarrow> call c st = Inl TypeError)"
  by (cases c) (simp_all add: outbound_defs Let_def)

theorem outbound_before_join_witness:
  "room initial = None \<and>
   destructurable (UpdatePlayerName (JObj [(''currentName'', JStr ''Carol''),
                                           (''userId'', JStr ''u1'')])) \<and>
   (\<exists>es. call (UpdatePlayerName (JObj [(''currentName'', JStr ''Carol''),
                                        (''userId'', JStr ''u1'')])) initial = Inr es \<and>
         filter is_send es = []) \<and>
   \<not> destructurable (UpdatePlayerName JNull) \<and>
   call (UpdatePlayerName JNull) joined = Inl TypeError"
proof -
  have a: "room initial = None" by (simp add: initial_def)
  have b: "destructurable (UpdatePlayerName (JObj [(''currentName'', JStr ''Carol''),
                                           (''userId'', JStr ''u1'')]))"
    and c: "\<not> destructurable (UpdatePlayerName JNull)"
    by simp_all
  show ?thesis
    using a b c
      outbound_before_join [of initial "UpdatePlayerName (JObj [(''currentName'', JStr ''Carol''),
                                           (''userId'', JStr ''u1'')])"]
      outbound_before_join [of joined "UpdatePlayerName JNull"]
    by blast
qed

text \<open>The claim as stated fails: before any room is joined, \<open>updatePlayerName\<close>
  called with \<open>undefined\<close> does not return normally.\<close>

theorem outbound_raises_counterexample:
  "room initial = None \<and>
   \<not> (\<exists>es. call (UpdatePlayerName JUndefined) initial = Inr es)"
  by (simp add: initial_def updatePlayerName_def)

text \<open>
  C10, as amended. While a room is joined, a call of \<open>sendPrivateMessage(sender,
  receiver, content)\<close> sends exactly two messages on it, in this order: \<open>SEND_DM\<close>
  with the three arguments, then \<open>RECEIVE_DM\<close> whose \<open>sender\<close> is the receiver.
  While no room is joined it sends nothing. It has no other effect.
\<close>

theorem sendPrivateMessage_two_sends:
  "(room st = Some r \<longrightarrow>
      sendPrivateMessage sender receiver content st =
        [Send r SEND_DM
           (JObj [(''sender'', JStr sender), (''receiver'', JStr receiver),
                  (''content'', JStr content)]),
         Send r RECEIVE_DM (JObj [(''sender'', JStr receiver)])]) \<and>
   (room st = None \<longrightarrow> sendPrivateMessage sender receiver content st = [])"
  by (simp add: sendPrivateMessage_def checkPrivateMessage_def room_send_def)

theorem sendPrivateMessage_two_sends_witness:
  "room joined = Some 0 \<and>
   sendPrivateMessage ''a'' ''b'' ''hi'' joined =
     [Send 0 SEND_DM
        (JObj [(''sender'', JStr ''a''), (''receiver'', JStr ''b''),
               (''content'', JStr ''hi'')]),
      Send 0 RECEIVE_DM (JObj [(''sender'', JStr ''b'')])] \<and>
   room initial = None \<and>
   sendPrivateMessage ''a'' ''b'' ''hi'' initial = []"
proof -
  have r: "room joined = Some 0" by (simp add: joined_def)
  have n: "room initial = None" by (simp add: initial_def)
  show ?thesis
    using r n
      sendPrivateMessage_two_sends [of joined 0 "''a''" "''b''" "''hi''"]
      sendPrivateMessage_two_sends [of initial 0 "''a''" "''b''" "''hi''"]
    by simp
qed

text \<open>The claim as stated fails: called before any room is joined, the operation
  sends nothing.\<close>

theorem sendPrivateMessage_unjoined_counterexample:
  "length (filter is_send (sendPrivateMessage ''a'' ''b'' ''hi'' initial)) \<noteq> 2"
  by (simp add: sendPrivateMessage_def checkPrivateMessage_def room_send_def initial_def)

end
